theory Spec2Isabelle
  imports Complex_Main "HOL-Library.Char_ord" "HOL-Library.List_Lexorder" "HOL-Library.Product_Lexorder"
begin

section \<open>Python values: errors, exceptions as results\<close>

text \<open>
  Every operation of the source that can raise is a function into \<open>py_error + 'a\<close>:
  \<open>Inl e\<close> is the exception reaching the caller, \<open>Inr v\<close> the returned value.
\<close>

datatype py_error = IndexError | KeyError | ValueError | TypeError | AttributeError | OtherError

text \<open>Sequencing of steps that can raise: the first exception ends the sequence.\<close>

fun bindE :: "py_error + 'a \<Rightarrow> ('a \<Rightarrow> py_error + 'b) \<Rightarrow> py_error + 'b" where
  "bindE (Inl e) f = Inl e"
| "bindE (Inr x) f = f x"


section \<open>Python strings\<close>

text \<open>
  A Python \<open>str\<close> is modelled as a list of code points below 256 (the type \<open>char\<close>,
  read as Latin-1); the character classes below are those of Python 3 on that range.
  \<open>is_space\<close> is \<open>str.isspace\<close> on one character, which is also the class
  \<open>\s\<close> of \<open>re\<close> and what \<open>str.strip()\<close> and \<open>str.split()\<close> remove.
  \<open>is_decimal\<close> is the class \<open>\d\<close> of \<open>re\<close> and the digits \<open>int()\<close> accepts
  (general category Nd); \<open>is_digit_char\<close> is \<open>str.isdigit\<close> on one character, which
  also holds for the superscript digits U+00B2, U+00B3 and U+00B9.
\<close>

definition code :: "char \<Rightarrow> nat" where
  "code c = of_char c"

definition is_space :: "char \<Rightarrow> bool" where
  "is_space c = (code c \<in> {9, 10, 11, 12, 13, 28, 29, 30, 31, 32, 133, 160})"

definition is_decimal :: "char \<Rightarrow> bool" where
  "is_decimal c = (48 \<le> code c \<and> code c \<le> 57)"

definition is_digit_char :: "char \<Rightarrow> bool" where
  "is_digit_char c = (is_decimal c \<or> code c \<in> {178, 179, 185})"

definition lower_char :: "char \<Rightarrow> char" where
  "lower_char c =
     (if (65 \<le> code c \<and> code c \<le> 90) \<or> (192 \<le> code c \<and> code c \<le> 222 \<and> code c \<noteq> 215)
      then char_of (code c + 32) else c)"

definition lower :: "string \<Rightarrow> string" where
  "lower s = map lower_char s"

definition strip :: "string \<Rightarrow> string" where
  "strip s = rev (dropWhile is_space (rev (dropWhile is_space s)))"

definition startswith :: "string \<Rightarrow> string \<Rightarrow> bool" where
  "startswith s p = (take (length p) s = p)"

definition endswith :: "string \<Rightarrow> string \<Rightarrow> bool" where
  "endswith s p = (length p \<le> length s \<and> drop (length s - length p) s = p)"

text \<open>\<open>sub in s\<close> of Python: \<open>sub\<close> occurs in \<open>s\<close>.\<close>

fun contains :: "string \<Rightarrow> string \<Rightarrow> bool" where
  "contains [] sub = (sub = [])"
| "contains (c # cs) sub = (startswith (c # cs) sub \<or> contains cs sub)"

text \<open>
  \<open>pattern.search(s)\<close> for a pattern without look-behind: the pattern matches at some
  position of \<open>s\<close>. The argument \<open>pat\<close> says whether the pattern matches at the start of
  a string.
\<close>

fun re_search :: "(string \<Rightarrow> bool) \<Rightarrow> string \<Rightarrow> bool" where
  "re_search pat [] = pat []"
| "re_search pat (c # cs) = (pat (c # cs) \<or> re_search pat cs)"

text \<open>
  A literal of lower-case ASCII letters and other ASCII characters under \<open>re.I\<close>: it
  matches the text that equals it once lowered.
\<close>

definition lit_ci :: "string \<Rightarrow> string \<Rightarrow> string option" where
  "lit_ci p s = (if lower (take (length p) s) = p then Some (drop (length p) s) else None)"

definition lit :: "string \<Rightarrow> string \<Rightarrow> string option" where
  "lit p s = (if take (length p) s = p then Some (drop (length p) s) else None)"

text \<open>
  \<open>X+\<close> and \<open>X*\<close> for a character class \<open>X\<close>, where what follows in the pattern
  cannot start with a character of \<open>X\<close>: the longest run is the only one that can lead
  to a match.
\<close>

definition many1 :: "(char \<Rightarrow> bool) \<Rightarrow> string \<Rightarrow> string option" where
  "many1 X s = (if takeWhile X s = [] then None else Some (dropWhile X s))"

definition many :: "(char \<Rightarrow> bool) \<Rightarrow> string \<Rightarrow> string option" where
  "many X s = Some (dropWhile X s)"

text \<open>\<open>sep.join(strings)\<close>\<close>

fun join :: "string \<Rightarrow> string list \<Rightarrow> string" where
  "join sep [] = []"
| "join sep [s] = s"
| "join sep (s # ss) = s @ sep @ join sep ss"

section \<open>The data containers of \<open>models.py\<close>\<close>

text \<open>
  The dataclasses \<open>Episode\<close>, \<open>SeriesMetadata\<close> and \<open>TitleInfo\<close>. An \<open>Optional[str]\<close>
  is a \<open>string option\<close>, a Python \<open>int\<close> an \<open>int\<close>. The dictionary
  \<open>seasons: dict[int, list[Episode]]\<close> is the list of its items in insertion order;
  its keys are distinct.
\<close>

record Episode =
  episode_code :: string
  title :: string
  season :: int
  episode :: int
  air_date :: string
  description :: string
  rating :: string
  cover_image :: "string option"
  cover_image_local :: "string option"
  imdb_url :: string

record SeriesMetadata =
  title_id :: string
  series_name :: string
  type :: "string option"
  years :: "string option"
  content_rating :: "string option"
  episode_duration :: "string option"
  imdb_rating :: "string option"
  rating_count :: "string option"
  popularity :: "string option"
  tags :: "string list"

record TitleInfo =
  meta :: SeriesMetadata
  seasons :: "(int \<times> Episode list) list"

text \<open>\<open>SeriesMetadata(title_id=..., series_name=...)\<close> with every other field at its default.\<close>

definition new_metadata :: "string \<Rightarrow> string \<Rightarrow> SeriesMetadata" where
  "new_metadata tid name =
     \<lparr>title_id = tid, series_name = name, type = None, years = None, content_rating = None,
      episode_duration = None, imdb_rating = None, rating_count = None, popularity = None,
      tags = []\<rparr>"

section \<open>Python integers and their decimal text\<close>

text \<open>
  The decimal text of an integer is \<open>str_int\<close>. CPython limits the conversions between
  \<open>int\<close> and \<open>str\<close> to \<open>sys.int_info.default_max_str_digits = 4300\<close> digits:
  \<open>str(n)\<close>, an f-string field, \<open>json.dumps\<close> and \<open>int(s)\<close> raise \<open>ValueError\<close> when
  the number has more decimal digits than that (the sign is not counted, leading
  zeros and every digit between underscores are). \<open>py_str\<close> is \<open>str(n)\<close>.
\<close>

definition max_str_digits :: nat where
  "max_str_digits = 4300"

definition digit_char :: "nat \<Rightarrow> char" where
  "digit_char d = char_of (48 + d)"

fun str_nat :: "nat \<Rightarrow> string" where
  "str_nat n = (if n < 10 then [digit_char n] else str_nat (n div 10) @ [digit_char (n mod 10)])"


definition num_digits :: "int \<Rightarrow> nat" where
  "num_digits i = length (str_nat (nat \<bar>i\<bar>))"


text \<open>
  \<open>int(s)\<close> for a string: surrounding whitespace is dropped, one sign may come first, and
  the rest must be decimal digits, with single underscores allowed between digits;
  anything else raises \<open>ValueError\<close>, and so does a literal of more than 4300 digits.
  The whitespace \<open>int()\<close> drops is not that of \<open>str.strip()\<close>: the separators U+001C
  to U+001F are left in place (and make the literal invalid), while U+0085 and
  U+00A0 are dropped.
\<close>

definition is_int_space :: "char \<Rightarrow> bool" where
  "is_int_space c = (code c \<in> {9, 10, 11, 12, 13, 32, 133, 160})"

definition int_strip :: "string \<Rightarrow> string" where
  "int_strip s = rev (dropWhile is_int_space (rev (dropWhile is_int_space s)))"

definition digit_value :: "char \<Rightarrow> nat" where
  "digit_value c = code c - 48"

definition digits_value :: "string \<Rightarrow> nat" where
  "digits_value ds = foldl (\<lambda>acc c. 10 * acc + digit_value c) 0 ds"

fun int_literal_body :: "string \<Rightarrow> bool" where
  "int_literal_body [] = False"
| "int_literal_body [c] = is_decimal c"
| "int_literal_body (c # d # cs) =
     (is_decimal c \<and> (if d = CHR ''_'' then int_literal_body cs else int_literal_body (d # cs)))"

definition py_int :: "string \<Rightarrow> py_error + int" where
  "py_int s =
     (let t = int_strip s;
          negative = (t \<noteq> [] \<and> hd t = CHR ''-'');
          body = (if t \<noteq> [] \<and> (hd t = CHR ''-'' \<or> hd t = CHR ''+'') then tl t else t);
          digits = filter (\<lambda>c. c \<noteq> CHR ''_'') body
      in if \<not> int_literal_body body then Inl ValueError
         else if max_str_digits < length digits then Inl ValueError
         else Inr ((if negative then - 1 else 1) * int (digits_value digits)))"

text \<open>\<open>s.isdigit()\<close>\<close>

definition isdigit :: "string \<Rightarrow> bool" where
  "isdigit s = (s \<noteq> [] \<and> list_all is_digit_char s)"

declare str_nat.simps [simp del]

section \<open>Fetch client: \<open>_http.http_fetch\<close>\<close>

text \<open>
  One pass through the body of the \<open>try\<close> in \<open>http_fetch\<close>
  (\<open>session.get\<close>, \<open>raise_for_status\<close>, \<open>BeautifulSoup(resp.text)\<close>) has one of
  three outcomes: it returns the parsed document, it raises a
  \<open>niquests.exceptions.RequestException\<close> (what the library raises for a transport
  error and what \<open>raise_for_status\<close> raises for an error status), or it raises
  something else, which the \<open>except\<close> clause does not catch.
  The network is a function from the URL and the attempt number to that outcome.
\<close>

datatype 'd attempt_outcome = Returned 'd | RequestException | Uncaught py_error

datatype fetch_event = Get nat | Sleep rat

text \<open>
  The loop \<open>for attempt in range(1, retries + 1)\<close>, run over the list of the attempt
  numbers still to come. The result is what the caller gets, together with the
  requests and sleeps in the order they happened.
\<close>

fun fetch_attempts ::
  "(string \<Rightarrow> nat \<Rightarrow> 'd attempt_outcome) \<Rightarrow> string \<Rightarrow> nat \<Rightarrow> nat list
     \<Rightarrow> (py_error + 'd option) \<times> fetch_event list" where
  "fetch_attempts session url retries [] = (Inr None, [])"
| "fetch_attempts session url retries (attempt # rest) =
     (case session url attempt of
        Returned doc \<Rightarrow> (Inr (Some doc), [Get attempt])
      | Uncaught e \<Rightarrow> (Inl e, [Get attempt])
      | RequestException \<Rightarrow>
          (let pause = (if attempt < retries then [Sleep (3 / 2 * of_nat attempt)] else []);
               r = fetch_attempts session url retries rest
           in (fst r, Get attempt # pause @ snd r)))"

definition http_fetch ::
  "(string \<Rightarrow> nat \<Rightarrow> 'd attempt_outcome) \<Rightarrow> string \<Rightarrow> nat
     \<Rightarrow> (py_error + 'd option) \<times> fetch_event list" where
  "http_fetch session url retries = fetch_attempts session url retries [1 ..< retries + 1]"

definition gets :: "fetch_event list \<Rightarrow> nat list" where
  "gets evs = concat (map (\<lambda>e. case e of Get k \<Rightarrow> [k] | Sleep _ \<Rightarrow> []) evs)"

section \<open>Render pool: the load-more expansion loop \<open>_browser._expand_episodes\<close>\<close>

text \<open>
  Each awaited Playwright call of the loop body either completes, raises Playwright's
  \<open>TimeoutError\<close> (\<open>PWTimeout\<close> in the source) or raises another exception. One pass
  through the \<open>while True\<close> body is determined by what the page does in that pass: how
  the call of \<open>_find_loadmore\<close> ends and whether it returns an element, how each other
  call ends and whether \<open>page.url\<close> differs from the URL read before the click.
  \<open>count_call\<close> is \<open>page.locator("article").count()\<close> before the \<open>try\<close>.
\<close>

datatype call_result = Completed | TimedOut | Raised

record iteration =
  find_call :: call_result
  candidate :: bool
  count_call :: call_result
  inner_text_call :: call_result
  scroll_call :: call_result
  click_call :: call_result
  url_changed :: bool
  goto_call :: call_result
  selector_call :: call_result
  growth_call :: call_result
  idle_call :: call_result

datatype action =
  FindLoadmore | CountArticles | InnerText | ScrollIntoView | Click | Pause rat
  | Goto | WaitForSelector | WaitForGrowth | WaitForNetworkIdle

text \<open>
  How a pass ends: the loop goes round again (\<open>Scanning\<close>: the next thing it does is call
  \<open>_find_loadmore\<close>), or it is left by one of the four \<open>break\<close>s: no candidate
  (\<open>Done\<close>), after the return to the episode page that follows a changed URL
  (\<open>Aborted\<close>), in \<open>except PWTimeout\<close> (\<open>TimeoutBreak\<close>), or in
  \<open>except Exception\<close> (\<open>ErrorBreak\<close>); or an exception raised outside the \<open>try\<close>
  leaves \<open>_expand_episodes\<close> (\<open>Propagated\<close>).
\<close>

datatype loop_state = Scanning | Done | Aborted | TimeoutBreak | ErrorBreak | Propagated

text \<open>The two handlers of the outer \<open>try\<close>: which \<open>break\<close> an exception reaches.\<close>

fun outer_except :: "call_result \<Rightarrow> loop_state" where
  "outer_except TimedOut = TimeoutBreak"
| "outer_except _ = ErrorBreak"

text \<open>
  One pass through the loop body: the state it ends in, whether \<open>click_count\<close> was
  incremented, and the calls made, in order. The calls of \<open>_find_loadmore\<close> and of
  \<open>count\<close> stand before the \<open>try\<close>, so what they raise is not caught. An exception
  raised by \<open>wait_for_load_state\<close> is raised inside the handler of the inner \<open>try\<close>, so
  it is the outer \<open>try\<close> that catches it.
\<close>

definition expand_step :: "iteration \<Rightarrow> loop_state \<times> bool \<times> action list" where
  "expand_step it =
    (if find_call it \<noteq> Completed then (Propagated, False, [FindLoadmore])
     else if \<not> candidate it then (Done, False, [FindLoadmore])
     else if count_call it \<noteq> Completed then (Propagated, False, [FindLoadmore, CountArticles])
     else if inner_text_call it \<noteq> Completed
       then (outer_except (inner_text_call it), False,
             [FindLoadmore, CountArticles, InnerText])
     else if scroll_call it \<noteq> Completed
       then (outer_except (scroll_call it), False,
             [FindLoadmore, CountArticles, InnerText, ScrollIntoView])
     else if click_call it \<noteq> Completed
       then (outer_except (click_call it), False,
             [FindLoadmore, CountArticles, InnerText, ScrollIntoView, Click])
     else if url_changed it then
       (if goto_call it \<noteq> Completed
          then (outer_except (goto_call it), True,
                [FindLoadmore, CountArticles, InnerText, ScrollIntoView, Click, Pause (2 / 5),
                 Goto])
        else if selector_call it \<noteq> Completed
          then (outer_except (selector_call it), True,
                [FindLoadmore, CountArticles, InnerText, ScrollIntoView, Click, Pause (2 / 5),
                 Goto, WaitForSelector])
        else (Aborted, True,
                [FindLoadmore, CountArticles, InnerText, ScrollIntoView, Click, Pause (2 / 5),
                 Goto, WaitForSelector]))
     else
       (case growth_call it of
          Completed \<Rightarrow>
            (Scanning, True,
             [FindLoadmore, CountArticles, InnerText, ScrollIntoView, Click, Pause (2 / 5),
              WaitForGrowth, Pause (3 / 10)])
        | Raised \<Rightarrow>
            (ErrorBreak, True,
             [FindLoadmore, CountArticles, InnerText, ScrollIntoView, Click, Pause (2 / 5),
              WaitForGrowth])
        | TimedOut \<Rightarrow>
            (if idle_call it = Completed
               then (Scanning, True,
                     [FindLoadmore, CountArticles, InnerText, ScrollIntoView, Click,
                      Pause (2 / 5), WaitForGrowth, WaitForNetworkIdle, Pause (3 / 10)])
             else (outer_except (idle_call it), True,
                     [FindLoadmore, CountArticles, InnerText, ScrollIntoView, Click,
                      Pause (2 / 5), WaitForGrowth, WaitForNetworkIdle]))))"

text \<open>
  The loop over the passes the page offers. The result is the state in which the loop was
  left (\<open>Scanning\<close> when the given passes run out before a \<open>break\<close>), the
  final \<open>click_count\<close> and the calls made.
\<close>

fun expand_loop :: "nat \<Rightarrow> iteration list \<Rightarrow> loop_state \<times> nat \<times> action list" where
  "expand_loop click_count [] = (Scanning, click_count, [])"
| "expand_loop click_count (it # its) =
     (case expand_step it of
        (st, clicked, calls) \<Rightarrow>
          (let n = (if clicked then click_count + 1 else click_count) in
           if st = Scanning
             then (case expand_loop n its of (st', n', calls') \<Rightarrow> (st', n', calls @ calls'))
           else (st, n, calls)))"

text \<open>
  \<open>_expand_episodes\<close>: the loop, and after a \<open>break\<close> the call
  \<open>page.locator("article").count()\<close>, which stands in no \<open>try\<close>; \<open>after_call\<close> says how
  it ends. The result is \<open>Propagated\<close> when an exception leaves the procedure, and
  otherwise the way the loop was left, with the final \<open>click_count\<close> and the calls made.
\<close>

definition expand_episodes ::
  "iteration list \<Rightarrow> call_result \<Rightarrow> loop_state \<times> nat \<times> action list" where
  "expand_episodes its after_call =
     (case expand_loop 0 its of
        (st, n, calls) \<Rightarrow>
          if st = Scanning \<or> st = Propagated then (st, n, calls)
          else if after_call = Completed then (st, n, calls @ [CountArticles])
          else (Propagated, n, calls @ [CountArticles]))"

section \<open>Render pool: the load-more finder \<open>_browser._find_loadmore\<close>\<close>

text \<open>
  \<open>_INLINE_MORE = re.compile(r"\d+\s+more|see\s+all|load\s+more", re.I)\<close>, matched at the
  start of a string.
\<close>

definition inline_more_at :: "string \<Rightarrow> bool" where
  "inline_more_at s =
     (Option.bind (Option.bind (many1 is_decimal s) (many1 is_space)) (lit_ci ''more'') \<noteq> None
      \<or> Option.bind (Option.bind (lit_ci ''see'' s) (many1 is_space)) (lit_ci ''all'') \<noteq> None
      \<or> Option.bind (Option.bind (lit_ci ''load'' s) (many1 is_space)) (lit_ci ''more'') \<noteq> None)"

definition INLINE_MORE_search :: "string \<Rightarrow> bool" where
  "INLINE_MORE_search s = re_search inline_more_at s"

definition is_navigating_href :: "string option \<Rightarrow> bool" where
  "is_navigating_href href =
     (case href of
        None \<Rightarrow> False
      | Some h0 \<Rightarrow>
          if h0 = [] then False
          else (let h = strip h0 in
                if h = [] \<or> startswith h ''#'' \<or> startswith (lower h) ''javascript:''
                then False else True))"

text \<open>
  The rendered page as the finder sees it: its elements in document order. Of an element
  the finder reads the tag, whether it is visible and enabled, its inner text, its
  attributes, and (through the descendant selectors of strategy 3) the \<open>data-testid\<close>
  values of its ancestors. \<open>detached\<close> stands for an element on which every awaited call
  raises, which the finder's \<open>except Exception: continue\<close> clauses catch.
\<close>

record element =
  tag :: string
  visible :: bool
  enabled :: bool
  inner_text :: string
  attrs :: "(string \<times> string) list"
  ancestor_testids :: "string list"
  detached :: bool

definition get_attribute :: "element \<Rightarrow> string \<Rightarrow> string option" where
  "get_attribute el name = map_of (attrs el) name"

text \<open>\<open>await el.get_attribute("href") or ""\<close>\<close>

definition href_or_empty :: "element \<Rightarrow> string" where
  "href_or_empty el = (case get_attribute el ''href'' of None \<Rightarrow> [] | Some h \<Rightarrow> h)"

text \<open>Strategy 1: \<open>button:visible\<close>, the first enabled one whose text matches.\<close>

fun strategy1 :: "element list \<Rightarrow> element option" where
  "strategy1 [] = None"
| "strategy1 (el # els) =
     (if detached el then strategy1 els
      else if INLINE_MORE_search (strip (inner_text el)) \<and> enabled el then Some el
      else strategy1 els)"

text \<open>Strategy 2: \<open>a:visible\<close>, skipping navigating hrefs.\<close>

fun strategy2 :: "element list \<Rightarrow> element option" where
  "strategy2 [] = None"
| "strategy2 (el # els) =
     (if detached el then strategy2 els
      else if is_navigating_href (Some (href_or_empty el)) then strategy2 els
      else if INLINE_MORE_search (strip (inner_text el))
              \<and> get_attribute el ''aria-disabled'' \<noteq> Some ''true'' then Some el
      else strategy2 els)"

text \<open>
  Strategy 3, the selector
  \<open>[data-testid*='frag'] tag:visible, tag[data-testid*='frag']:visible\<close>.
\<close>

definition testid_selector :: "string \<Rightarrow> string \<Rightarrow> element \<Rightarrow> bool" where
  "testid_selector frag t el =
     (tag el = t \<and> visible el
      \<and> ((\<exists>a \<in> set (ancestor_testids el). contains a frag)
           \<or> (case get_attribute el ''data-testid'' of None \<Rightarrow> False
               | Some v \<Rightarrow> contains v frag)))"

text \<open>
  Strategy 3 looks only at \<open>loc.first\<close> of each (fragment, tag) pair; \<open>continue\<close> moves
  on to the next pair.
\<close>

fun strategy3 :: "element list \<Rightarrow> (string \<times> string) list \<Rightarrow> element option" where
  "strategy3 page [] = None"
| "strategy3 page ((frag, t) # pairs) =
     (case filter (testid_selector frag t) page of
        [] \<Rightarrow> strategy3 page pairs
      | el # _ \<Rightarrow>
          if detached el then strategy3 page pairs
          else if t = ''a'' \<and> is_navigating_href (Some (href_or_empty el))
            then strategy3 page pairs
          else if get_attribute el ''aria-disabled'' \<noteq> Some ''true'' then Some el
          else strategy3 page pairs)"

text \<open>
  Strategy 4, the selector \<open>tag[aria-label*='more' i]:visible,
  tag[aria-label*='see all' i]:visible\<close>.
\<close>

definition aria_selector :: "string \<Rightarrow> element \<Rightarrow> bool" where
  "aria_selector t el =
     (tag el = t \<and> visible el
      \<and> (case get_attribute el ''aria-label'' of None \<Rightarrow> False
          | Some v \<Rightarrow> contains (lower v) ''more'' \<or> contains (lower v) ''see all''))"

fun strategy4_scan :: "string \<Rightarrow> element list \<Rightarrow> element option" where
  "strategy4_scan t [] = None"
| "strategy4_scan t (el # els) =
     (if detached el then strategy4_scan t els
      else if t = ''a'' \<and> is_navigating_href (Some (href_or_empty el))
        then strategy4_scan t els
      else if get_attribute el ''aria-disabled'' \<noteq> Some ''true'' then Some el
      else strategy4_scan t els)"

fun strategy4 :: "element list \<Rightarrow> string list \<Rightarrow> element option" where
  "strategy4 page [] = None"
| "strategy4 page (t # ts) =
     (case strategy4_scan t (filter (aria_selector t) page) of
        Some el \<Rightarrow> Some el
      | None \<Rightarrow> strategy4 page ts)"

definition find_loadmore :: "element list \<Rightarrow> element option" where
  "find_loadmore page =
     (case strategy1 (filter (\<lambda>el. tag el = ''button'' \<and> visible el) page) of
        Some el \<Rightarrow> Some el
      | None \<Rightarrow>
     (case strategy2 (filter (\<lambda>el. tag el = ''a'' \<and> visible el) page) of
        Some el \<Rightarrow> Some el
      | None \<Rightarrow>
     (case strategy3 page
             [(''see-more'', ''button''), (''see-more'', ''a''),
              (''load-more'', ''button''), (''load-more'', ''a''),
              (''expand'', ''button''), (''expand'', ''a'')] of
        Some el \<Rightarrow> Some el
      | None \<Rightarrow> strategy4 page [''button'', ''a''])))"

section \<open>Image download: \<open>_http.download_images\<close>\<close>

























section \<open>Persistence: \<open>TitleInfo.to_dict\<close>, \<open>TitleInfo.save\<close> and \<open>load\<close>\<close>

text \<open>
  The values \<open>json.dumps\<close> writes and \<open>json.loads\<close> reads. An object is the list of its
  members in order. \<open>save\<close> writes the text of the value \<open>to_dict\<close> builds and \<open>load\<close>
  works on the value parsed from the text of the file; the file is represented by that
  value.
\<close>

datatype json =
  JNull | JBool bool | JInt int | JString string | JArray "json list"
  | JObject "(string \<times> json) list"




text \<open>\<open>d[key] = value\<close> on a dictionary: a new key goes last, an old key keeps its place.\<close>

fun dict_set :: "'k \<Rightarrow> 'v \<Rightarrow> ('k \<times> 'v) list \<Rightarrow> ('k \<times> 'v) list" where
  "dict_set k v [] = [(k, v)]"
| "dict_set k v (p # ps) = (if fst p = k then (k, v) # ps else p # dict_set k v ps)"




text \<open>
  \<open>json.dumps\<close> and \<open>json.loads\<close>. The text of a value is represented by the value;
  both raise \<open>ValueError\<close> when an integer of the value has more than 4300 digits.
\<close>

fun ints_in_limit :: "json \<Rightarrow> bool" where
  "ints_in_limit (JInt i) = (num_digits i \<le> max_str_digits)"
| "ints_in_limit (JArray js) = (\<forall>j \<in> set js. ints_in_limit j)"
| "ints_in_limit (JObject d) = (\<forall>j \<in> snd ` set d. ints_in_limit j)"
| "ints_in_limit _ = True"


definition json_loads :: "json \<Rightarrow> py_error + json" where
  "json_loads v = (if ints_in_limit v then Inr v else Inl ValueError)"


text \<open>
  The result of \<open>load\<close>: the object it builds, or the exception it raises. \<open>load\<close> does not
  look at the types of the values it reads, so from a file whose values have other types
  than the dataclass fields declare it builds an object that is not a value of the
  records above: \<open>OutOfModel\<close>.
\<close>

datatype 'a load_result = Loaded 'a | Raises py_error | OutOfModel

fun and_then :: "'a load_result \<Rightarrow> ('a \<Rightarrow> 'b load_result) \<Rightarrow> 'b load_result" where
  "and_then (Loaded x) f = f x"
| "and_then (Raises e) f = Raises e"
| "and_then OutOfModel f = OutOfModel"

text \<open>\<open>d.get(key, default)\<close> read at the type of the field it fills.\<close>

definition get_str :: "(string \<times> json) list \<Rightarrow> string \<Rightarrow> string \<Rightarrow> string load_result" where
  "get_str d key dflt =
     (case map_of d key of None \<Rightarrow> Loaded dflt | Some (JString s) \<Rightarrow> Loaded s
      | Some _ \<Rightarrow> OutOfModel)"

definition get_opt_str :: "(string \<times> json) list \<Rightarrow> string \<Rightarrow> string option load_result" where
  "get_opt_str d key =
     (case map_of d key of None \<Rightarrow> Loaded None | Some JNull \<Rightarrow> Loaded None
      | Some (JString s) \<Rightarrow> Loaded (Some s) | Some _ \<Rightarrow> OutOfModel)"

definition get_int :: "(string \<times> json) list \<Rightarrow> string \<Rightarrow> int \<Rightarrow> int load_result" where
  "get_int d key dflt =
     (case map_of d key of None \<Rightarrow> Loaded dflt | Some (JInt i) \<Rightarrow> Loaded i
      | Some _ \<Rightarrow> OutOfModel)"

fun str_list :: "json list \<Rightarrow> string list load_result" where
  "str_list [] = Loaded []"
| "str_list (JString s # js) = and_then (str_list js) (\<lambda>ss. Loaded (s # ss))"
| "str_list (_ # js) = OutOfModel"

definition get_tags :: "(string \<times> json) list \<Rightarrow> string list load_result" where
  "get_tags d =
     (case map_of d ''tags'' of None \<Rightarrow> Loaded [] | Some (JArray js) \<Rightarrow> str_list js
      | Some _ \<Rightarrow> OutOfModel)"

text \<open>The \<open>Episode(...)\<close> call of the comprehension; \<open>ep.get\<close> needs a dictionary.\<close>

definition load_episode :: "json \<Rightarrow> Episode load_result" where
  "load_episode ep =
     (case ep of
        JObject d \<Rightarrow>
          and_then (get_str d ''episode_code'' '''') (\<lambda>c.
          and_then (get_str d ''title'' '''') (\<lambda>t.
          and_then (get_int d ''season'' 0) (\<lambda>s.
          and_then (get_int d ''episode'' 0) (\<lambda>e.
          and_then (get_str d ''air_date'' '''') (\<lambda>a.
          and_then (get_str d ''description'' '''') (\<lambda>ds.
          and_then (get_str d ''rating'' ''N/A'') (\<lambda>r.
          and_then (get_opt_str d ''cover_image'') (\<lambda>ci.
          and_then (get_opt_str d ''cover_image_local'') (\<lambda>cl.
          and_then (get_str d ''imdb_url'' '''') (\<lambda>u.
            Loaded \<lparr>episode_code = c, title = t, season = s, episode = e, air_date = a,
                    description = ds, rating = r, cover_image = ci, cover_image_local = cl,
                    imdb_url = u\<rparr>))))))))))
      | _ \<Rightarrow> Raises AttributeError)"

fun load_episode_list :: "json list \<Rightarrow> Episode list load_result" where
  "load_episode_list [] = Loaded []"
| "load_episode_list (ep # eps) =
     and_then (load_episode ep) (\<lambda>e.
     and_then (load_episode_list eps) (\<lambda>es. Loaded (e # es)))"

text \<open>
  \<open>for ep in eps\<close>: an array gives its elements; \<open>null\<close>, a number and a truth value
  are not iterable; a string gives its characters and an object its keys, and \<open>ep.get\<close>
  on the first of those raises.
\<close>

fun load_episodes :: "json \<Rightarrow> Episode list load_result" where
  "load_episodes (JArray eps) = load_episode_list eps"
| "load_episodes (JString s) = (if s = [] then Loaded [] else Raises AttributeError)"
| "load_episodes (JObject d) = (if d = [] then Loaded [] else Raises AttributeError)"
| "load_episodes _ = Raises TypeError"

text \<open>
  The loop over \<open>data.get("seasons", {}).items()\<close>. The list of episodes is built before
  \<open>int(season_key)\<close> is evaluated; \<open>acc\<close> is the dictionary \<open>seasons\<close> of the source as
  built so far.
\<close>

fun load_seasons ::
  "(string \<times> json) list \<Rightarrow> (int \<times> Episode list) list \<Rightarrow> (int \<times> Episode list) list load_result" where
  "load_seasons [] acc = Loaded acc"
| "load_seasons ((season_key, eps) # rest) acc =
     and_then (load_episodes eps) (\<lambda>es.
       case py_int season_key of
         Inl e \<Rightarrow> Raises e
       | Inr k \<Rightarrow> load_seasons rest (dict_set k es acc))"

definition load :: "json \<Rightarrow> TitleInfo load_result" where
  "load file =
     (case json_loads file of
        Inl e \<Rightarrow> Raises e
      | Inr (JObject d) \<Rightarrow>
          and_then (get_str d ''title_id'' '''') (\<lambda>tid.
          and_then (get_str d ''series_name'' '''') (\<lambda>name.
          and_then (get_opt_str d ''type'') (\<lambda>ty.
          and_then (get_opt_str d ''years'') (\<lambda>ys.
          and_then (get_opt_str d ''content_rating'') (\<lambda>cr.
          and_then (get_opt_str d ''episode_duration'') (\<lambda>du.
          and_then (get_opt_str d ''imdb_rating'') (\<lambda>ir.
          and_then (get_opt_str d ''rating_count'') (\<lambda>rc.
          and_then (get_opt_str d ''popularity'') (\<lambda>po.
          and_then (get_tags d) (\<lambda>tg.
          and_then
            (case map_of d ''seasons'' of
               None \<Rightarrow> Loaded []
             | Some (JObject items) \<Rightarrow> load_seasons items []
             | Some _ \<Rightarrow> Raises AttributeError) (\<lambda>ss.
            Loaded \<lparr>meta = \<lparr>title_id = tid, series_name = name, type = ty, years = ys,
                             content_rating = cr, episode_duration = du, imdb_rating = ir,
                             rating_count = rc, popularity = po, tags = tg\<rparr>,
                    seasons = ss\<rparr>)))))))))))
      | Inr _ \<Rightarrow> Raises AttributeError)"


section \<open>The document tree\<close>

text \<open>
  A parsed document as BeautifulSoup holds it: a tag has a name, attributes and children, a
  text node holds a string. The \<open>BeautifulSoup\<close> object itself is a tag (named
  \<open>[document]\<close>) whose children are the top-level nodes.

  A string of the tree is an object of class \<open>NavigableString\<close> or of one of its
  subclasses. \<open>Text\<close> is a string of class \<open>NavigableString\<close> or \<open>CData\<close>, the two
  classes that \<open>get_text\<close> collects by default. \<open>Special\<close> is a string of another class:
  a comment, a declaration (doctype, processing instruction), or a string that the
  tree builder of \<open>html.parser\<close> found inside a \<open>script\<close>, \<open>style\<close>, \<open>template\<close>, \<open>rt\<close> or
  \<open>rp\<close> element and stored in the class of that container.
\<close>

datatype string_class =
  Comment | Declaration | Script | Stylesheet | TemplateString | RubyTextString
  | RubyParenthesisString

datatype node =
  Text string | Tag string "(string \<times> string) list" "node list" | Special string_class string

fun is_tag :: "node \<Rightarrow> bool" where
  "is_tag (Tag _ _ _) = True"
| "is_tag (Text _) = False"
| "is_tag (Special _ _) = False"

fun name :: "node \<Rightarrow> string" where
  "name (Tag n _ _) = n"
| "name (Text _) = []"
| "name (Special _ _) = []"

text \<open>\<open>tag.get(key)\<close>: the value of an attribute, \<open>None\<close> when the tag has none.\<close>

fun attr :: "node \<Rightarrow> string \<Rightarrow> string option" where
  "attr (Tag _ as _) key = map_of as key"
| "attr (Text _) key = None"
| "attr (Special _ _) key = None"

text \<open>\<open>tag.get(key, "")\<close>\<close>

definition attr_or_empty :: "node \<Rightarrow> string \<Rightarrow> string" where
  "attr_or_empty t key = (case attr t key of None \<Rightarrow> [] | Some v \<Rightarrow> v)"

text \<open>\<open>tag[key]\<close>, which raises \<open>KeyError\<close> when the attribute is absent.\<close>

definition attr_item :: "node \<Rightarrow> string \<Rightarrow> py_error + string" where
  "attr_item t key = (case attr t key of None \<Rightarrow> Inl KeyError | Some v \<Rightarrow> Inr v)"

text \<open>
  The nodes below a node in document order, each with its parent; this is the order in
  which \<open>find_all\<close> and \<open>find\<close> visit them.
\<close>

fun below :: "node \<Rightarrow> (node \<times> node) list" where
  "below (Text s) = []"
| "below (Special k s) = []"
| "below (Tag n as cs) = concat (map (\<lambda>c. (c, Tag n as cs) # below c) cs)"

definition descendants :: "node \<Rightarrow> node list" where
  "descendants t = map fst (below t)"

text \<open>\<open>tag.find_all(...)\<close> with the filter given as a predicate on tags.\<close>

definition find_all :: "(node \<Rightarrow> bool) \<Rightarrow> node \<Rightarrow> node list" where
  "find_all f t = filter (\<lambda>d. is_tag d \<and> f d) (descendants t)"

text \<open>\<open>tag.find(...)\<close>: the first tag \<open>find_all\<close> would give, or \<open>None\<close>.\<close>

definition find :: "(node \<Rightarrow> bool) \<Rightarrow> node \<Rightarrow> node option" where
  "find f t = (case find_all f t of [] \<Rightarrow> None | d # _ \<Rightarrow> Some d)"

text \<open>\<open>found.parent\<close> for the tag that \<open>tag.find(...)\<close> returns.\<close>

definition find_parent :: "(node \<Rightarrow> bool) \<Rightarrow> node \<Rightarrow> node option" where
  "find_parent f t =
     (case filter (\<lambda>(d, p). is_tag d \<and> f d) (below t) of [] \<Rightarrow> None | (d, p) # _ \<Rightarrow> Some p)"

text \<open>The filters used by the parser.\<close>

definition named :: "string \<Rightarrow> node \<Rightarrow> bool" where
  "named n t = (name t = n)"

definition named_in :: "string list \<Rightarrow> node \<Rightarrow> bool" where
  "named_in ns t = (name t \<in> set ns)"

definition attr_is :: "string \<Rightarrow> string \<Rightarrow> node \<Rightarrow> bool" where
  "attr_is key v t = (attr t key = Some v)"

definition attr_matches :: "string \<Rightarrow> (string \<Rightarrow> bool) \<Rightarrow> node \<Rightarrow> bool" where
  "attr_matches key pat t = (case attr t key of None \<Rightarrow> False | Some v \<Rightarrow> pat v)"

definition has_attr :: "string \<Rightarrow> node \<Rightarrow> bool" where
  "has_attr key t = (attr t key \<noteq> None)"

text \<open>
  The strings that \<open>get_text\<close> collects below a tag, in document order
  (\<open>Tag._all_strings\<close>): the descendants whose class is one of the tag's
  \<open>interesting_string_types\<close>. For a \<open>script\<close>, \<open>style\<close>, \<open>template\<close>, \<open>rt\<close> or \<open>rp\<close>
  tag that is the one class of its own strings; for every other tag, and for the
  document, it is \<open>NavigableString\<close> and \<open>CData\<close>, so that the text of scripts, style
  sheets, templates, ruby annotations and comments is left out.
\<close>

definition string_container :: "string \<Rightarrow> string_class option" where
  "string_container n =
     (if n = ''rt'' then Some RubyTextString
      else if n = ''rp'' then Some RubyParenthesisString
      else if n = ''style'' then Some Stylesheet
      else if n = ''script'' then Some Script
      else if n = ''template'' then Some TemplateString
      else None)"

definition strings :: "node \<Rightarrow> string list" where
  "strings t =
     concat (map (\<lambda>d. case d of
                         Text s \<Rightarrow> (if string_container (name t) = None then [s] else [])
                       | Special k s \<Rightarrow> (if string_container (name t) = Some k then [s] else [])
                       | Tag _ _ _ \<Rightarrow> [])
                 (descendants t))"

text \<open>
  The four forms of \<open>get_text\<close> the parser calls: \<open>get_text()\<close>, \<open>get_text(" ")\<close>,
  \<open>get_text(strip=True)\<close> and \<open>get_text(" ", strip=True)\<close>. With \<open>strip=True\<close> every
  string is stripped and the empty ones are left out.
\<close>

definition get_text :: "node \<Rightarrow> string" where
  "get_text t = concat (strings t)"

definition get_text_sep :: "string \<Rightarrow> node \<Rightarrow> string" where
  "get_text_sep sep t = join sep (strings t)"

definition stripped_strings :: "node \<Rightarrow> string list" where
  "stripped_strings t = filter (\<lambda>s. s \<noteq> []) (map strip (strings t))"

definition get_text_strip :: "node \<Rightarrow> string" where
  "get_text_strip t = concat (stripped_strings t)"

definition get_text_sep_strip :: "string \<Rightarrow> node \<Rightarrow> string" where
  "get_text_sep_strip sep t = join sep (stripped_strings t)"

text \<open>
  \<open>soup.select("select option")\<close>: the \<open>option\<close> tags that have a \<open>select\<close> tag among
  their ancestors, in document order. The flag says whether a \<open>select\<close> has been passed
  on the way down.
\<close>

fun select_options :: "bool \<Rightarrow> node \<Rightarrow> node list" where
  "select_options inside (Text s) = []"
| "select_options inside (Special k s) = []"
| "select_options inside (Tag n as cs) =
     concat (map (\<lambda>c. (if inside \<and> name c = ''option'' then [c] else [])
                        @ select_options (inside \<or> name c = ''select'') c) cs)"

section \<open>Season discovery: \<open>_parse.parse_season_numbers\<close>\<close>

text \<open>
  The body \<open>if t.isdigit(): found.add(int(t))\<close> run over a list of texts. The set
  \<open>found\<close> is the list of the numbers added so far; \<open>int\<close> can raise.
\<close>

fun add_numbers :: "string list \<Rightarrow> int list \<Rightarrow> py_error + int list" where
  "add_numbers [] found = Inr found"
| "add_numbers (t # ts) found =
     (if isdigit t
      then (case py_int t of Inl e \<Rightarrow> Inl e | Inr n \<Rightarrow> add_numbers ts (found @ [n]))
      else add_numbers ts found)"

text \<open>
  \<open>re.search(r"\?season=(\d+)", href)\<close>: the digits captured at the first place where
  \<open>?season=\<close> is followed by a digit.
\<close>

fun search_season :: "string \<Rightarrow> string option" where
  "search_season [] = None"
| "search_season (c # cs) =
     (case lit ''?season='' (c # cs) of
        None \<Rightarrow> search_season cs
      | Some rest \<Rightarrow>
          if takeWhile is_decimal rest \<noteq> [] then Some (takeWhile is_decimal rest)
          else search_season cs)"

text \<open>The third loop: \<open>m = re.search(..., a["href"]); if m: found.add(int(m.group(1)))\<close>.\<close>

fun add_season_links :: "node list \<Rightarrow> int list \<Rightarrow> py_error + int list" where
  "add_season_links [] found = Inr found"
| "add_season_links (a # as) found =
     (case attr_item a ''href'' of
        Inl e \<Rightarrow> Inl e
      | Inr href \<Rightarrow>
          (case search_season href of
             None \<Rightarrow> add_season_links as found
           | Some g \<Rightarrow>
               (case py_int g of
                  Inl e \<Rightarrow> Inl e
                | Inr n \<Rightarrow> add_season_links as (found @ [n]))))"

text \<open>\<open>sorted(found)\<close> for the set \<open>found\<close>.\<close>

definition sorted_set :: "int list \<Rightarrow> int list" where
  "sorted_set found = sort (remdups found)"

definition parse_season_numbers :: "node \<Rightarrow> py_error + int list" where
  "parse_season_numbers soup =
     (case add_numbers
             (map get_text_strip (find_all (attr_is ''data-testid'' ''tab-season-entry'') soup))
             [] of
        Inl e \<Rightarrow> Inl e
      | Inr found1 \<Rightarrow>
     (case (if found1 = []
            then add_numbers (map (\<lambda>opt. strip (attr_or_empty opt ''value''))
                                  (select_options False soup)) found1
            else Inr found1) of
        Inl e \<Rightarrow> Inl e
      | Inr found2 \<Rightarrow>
     (case (if found2 = []
            then add_season_links
                   (find_all (\<lambda>t. named ''a'' t
                                   \<and> attr_matches ''href'' (\<lambda>v. search_season v \<noteq> None) t) soup)
                   found2
            else Inr found2) of
        Inl e \<Rightarrow> Inl e
      | Inr found3 \<Rightarrow> Inr (sorted_set found3))))"

section \<open>Best image: \<open>_parse._best_image\<close>\<close>

text \<open>The look-ahead \<open>(?=https?://)\<close>.\<close>

definition url_scheme_ahead :: "string \<Rightarrow> bool" where
  "url_scheme_ahead s = (startswith s ''http://'' \<or> startswith s ''https://'')"

text \<open>
  \<open>re.split(r",\s+(?=https?://)", s)\<close>. The separator matches at a comma that is followed
  by at least one whitespace character and, after all the whitespace, by the scheme; the
  pieces between the separators are returned. \<open>cur\<close> is the piece being read.
\<close>

function split_srcset :: "string \<Rightarrow> string \<Rightarrow> string list" where
  "split_srcset cur [] = [cur]"
| "split_srcset cur (c # cs) =
     (if c = CHR '','' \<and> takeWhile is_space cs \<noteq> [] \<and> url_scheme_ahead (dropWhile is_space cs)
      then cur # split_srcset [] (dropWhile is_space cs)
      else split_srcset (cur @ [c]) cs)"
  by pat_completeness auto
termination
  by (relation "measure (\<lambda>(cur, s). length s)")
     (auto simp: le_imp_less_Suc length_dropWhile_le)

text \<open>\<open>s.rstrip()\<close> and \<open>s.rsplit(None, 1)\<close>.\<close>

definition rstrip :: "string \<Rightarrow> string" where
  "rstrip s = rev (dropWhile is_space (rev s))"

definition rsplit1 :: "string \<Rightarrow> string list" where
  "rsplit1 s =
     (let t = rstrip s in
      if t = [] then []
      else (let token = rev (takeWhile (\<lambda>c. \<not> is_space c) (rev t));
                rest = rstrip (rev (dropWhile (\<lambda>c. \<not> is_space c) (rev t)))
            in if rest = [] then [token] else [rest, token]))"

text \<open>\<open>max(xs)\<close>: the first greatest element; \<open>ValueError\<close> on an empty list.\<close>

definition py_max :: "'a::linorder list \<Rightarrow> py_error + 'a" where
  "py_max xs =
     (case xs of [] \<Rightarrow> Inl ValueError
      | x # ys \<Rightarrow> Inr (foldl (\<lambda>m y. if m < y then y else m) x ys))"

text \<open>
  The loop over the entries: \<open>candidates\<close> grows by \<open>(width, url.strip())\<close> for every
  entry of two tokens whose descriptor has a digit. \<open>re.sub(r"[^\d]", "", descriptor)\<close>
  keeps the decimal digits; the \<open>try\<close> catches \<open>ValueError\<close> only.
\<close>

fun image_candidates :: "string list \<Rightarrow> (int \<times> string) list \<Rightarrow> py_error + (int \<times> string) list" where
  "image_candidates [] candidates = Inr candidates"
| "image_candidates (entry # entries) candidates =
     (case rsplit1 entry of
        [url, descriptor] \<Rightarrow>
          (case py_int (filter is_decimal descriptor) of
             Inr width \<Rightarrow> image_candidates entries (candidates @ [(width, strip url)])
           | Inl ValueError \<Rightarrow> image_candidates entries candidates
           | Inl e \<Rightarrow> Inl e)
      | _ \<Rightarrow> image_candidates entries candidates)"

definition best_image :: "node \<Rightarrow> py_error + string option" where
  "best_image img =
     (let srcset = attr_or_empty img ''srcset'' in
      if srcset \<noteq> [] then
        (case image_candidates (split_srcset [] (strip srcset)) [] of
           Inl e \<Rightarrow> Inl e
         | Inr candidates \<Rightarrow>
             if candidates \<noteq> []
             then (case py_max candidates of Inl e \<Rightarrow> Inl e | Inr best \<Rightarrow> Inr (Some (snd best)))
             else Inr (attr img ''src''))
      else Inr (attr img ''src''))"






section \<open>Series metadata: \<open>_parse.parse_series_metadata\<close>\<close>

text \<open>\<open>xs[0]\<close>, \<open>xs[1]\<close> and \<open>xs[-1]\<close>\<close>

definition py_index :: "'a list \<Rightarrow> nat \<Rightarrow> py_error + 'a" where
  "py_index xs i = (if i < length xs then Inr (xs ! i) else Inl IndexError)"

definition py_last :: "'a list \<Rightarrow> py_error + 'a" where
  "py_last xs = (if xs = [] then Inl IndexError else Inr (last xs))"

text \<open>
  \<open>re.sub(pattern, "", s)\<close> for a pattern that ends in \<open>\s*$\<close>: a match runs to the end
  of the string, so the result is what stands before the leftmost match. \<open>full\<close> says
  whether the pattern matches a whole string.
\<close>

fun sub_to_end :: "(string \<Rightarrow> bool) \<Rightarrow> string \<Rightarrow> string" where
  "sub_to_end full [] = []"
| "sub_to_end full (c # cs) = (if full (c # cs) then [] else c # sub_to_end full cs)"

text \<open>\<open>\s*-\s*IMDBx\s*$\<close> with \<open>re.I\<close>, on a whole string.\<close>

definition imdbx_suffix :: "string \<Rightarrow> bool" where
  "imdbx_suffix t =
     (case dropWhile is_space t of
        [] \<Rightarrow> False
      | c # b \<Rightarrow>
          c = CHR ''-''
          \<and> (case lit_ci ''imdbx'' (dropWhile is_space b) of
                None \<Rightarrow> False
              | Some r \<Rightarrow> dropWhile is_space r = []))"

text \<open>
  \<open>\s*\(\d{4}.*?\)\s*$\<close> on a whole string: after the four digits, the last character
  that is not whitespace is the closing parenthesis, and no newline stands before it
  (the dot does not match a newline).
\<close>

definition year_suffix :: "string \<Rightarrow> bool" where
  "year_suffix t =
     (case dropWhile is_space t of
        [] \<Rightarrow> False
      | c # b \<Rightarrow>
          c = CHR ''(''
          \<and> 4 \<le> length b \<and> list_all is_decimal (take 4 b)
          \<and> (let r = rstrip (drop 4 b)
              in r \<noteq> [] \<and> last r = CHR '')'' \<and> CHR 0x0A \<notin> set (butlast r)))"

text \<open>\<open>$\<close>: at the end of the string, or before a newline that ends the string.\<close>

definition at_dollar :: "string \<Rightarrow> bool" where
  "at_dollar r = (r = [] \<or> r = [CHR 0x0A])"

text \<open>\<open>re.match(r"TV-(G|PG|14|MA)|^(G|PG|PG-13|R|NC-17)$", item, re.I)\<close>\<close>

definition content_rating_match :: "string \<Rightarrow> bool" where
  "content_rating_match item =
     (list_ex (\<lambda>p. startswith (lower item) p) [''tv-g'', ''tv-pg'', ''tv-14'', ''tv-ma'']
      \<or> list_ex (\<lambda>p. startswith (lower item) p \<and> at_dollar (drop (length p) item))
           [''g'', ''pg'', ''pg-13'', ''r'', ''nc-17''])"

text \<open>\<open>re.match(r"TV\s|Movie|Short|Special|Mini", item, re.I)\<close>\<close>

definition type_match :: "string \<Rightarrow> bool" where
  "type_match item =
     ((startswith (lower item) ''tv'' \<and> 2 < length item \<and> is_space (item ! 2))
      \<or> list_ex (\<lambda>p. startswith (lower item) p) [''movie'', ''short'', ''special'', ''mini''])"

text \<open>\<open>re.match(r"\d{4}", item)\<close>\<close>

definition years_match :: "string \<Rightarrow> bool" where
  "years_match item = (4 \<le> length item \<and> list_all is_decimal (take 4 item))"

text \<open>\<open>re.search(r"\d+\s*(h|m)", item)\<close>\<close>

definition duration_at :: "string \<Rightarrow> bool" where
  "duration_at s =
     (case many1 is_decimal s of
        None \<Rightarrow> False
      | Some r \<Rightarrow> (case dropWhile is_space r of [] \<Rightarrow> False
                   | c # _ \<Rightarrow> c = CHR ''h'' \<or> c = CHR ''m''))"

definition duration_search :: "string \<Rightarrow> bool" where
  "duration_search item = re_search duration_at item"

text \<open>
  One item of the hero list. The content rating is tested first, then the type, the years
  and the duration.
\<close>

definition classify_item :: "string \<Rightarrow> SeriesMetadata \<Rightarrow> SeriesMetadata" where
  "classify_item item m =
     (if content_rating_match item then m\<lparr>content_rating := Some item\<rparr>
      else if type_match item then m\<lparr>type := Some item\<rparr>
      else if years_match item then m\<lparr>years := Some item\<rparr>
      else if duration_search item then m\<lparr>episode_duration := Some item\<rparr>
      else m)"

text \<open>
  \<open>re.findall(r"/\s*10\s+([\d.,KkMm]+)", text)\<close>. \<open>votes_at\<close> is a match at the start of
  a string: the captured group and what follows the match. \<open>findall\<close> goes on behind each
  match.
\<close>

definition vote_char :: "char \<Rightarrow> bool" where
  "vote_char c = (is_decimal c \<or> c \<in> set ''.,KkMm'')"

definition votes_at :: "string \<Rightarrow> (string \<times> string) option" where
  "votes_at s =
     (case s of
        [] \<Rightarrow> None
      | c # a \<Rightarrow>
          if c \<noteq> CHR ''/'' then None
          else (case lit ''10'' (dropWhile is_space a) of
                  None \<Rightarrow> None
                | Some b \<Rightarrow>
                    if takeWhile is_space b \<noteq> []
                       \<and> takeWhile vote_char (dropWhile is_space b) \<noteq> []
                    then Some (takeWhile vote_char (dropWhile is_space b),
                               dropWhile vote_char (dropWhile is_space b))
                    else None))"

function findall_votes :: "string \<Rightarrow> string list" where
  "findall_votes [] = []"
| "findall_votes (c # cs) =
     (case votes_at (c # cs) of
        None \<Rightarrow> findall_votes cs
      | Some (g, rest) \<Rightarrow> g # findall_votes rest)"
  by pat_completeness auto
termination
proof (relation "measure length")
  show "wf (measure length)"
    by simp
next
  fix c cs
  show "(cs, c # cs) \<in> measure length"
    by simp
next
  fix c :: char and cs x2 g rest
  assume "votes_at (c # cs) = Some x2" and "(g, rest) = x2"
  then have v: "votes_at (c # cs) = Some (g, rest)"
    by simp
  then obtain b where b: "lit ''10'' (dropWhile is_space cs) = Some b"
    and r: "rest = dropWhile vote_char (dropWhile is_space b)"
    by (auto simp: votes_at_def split: if_splits option.splits)
  from b have "length b \<le> length (dropWhile is_space cs)"
    by (auto simp: lit_def split: if_splits)
  also have "\<dots> \<le> length cs"
    by (rule length_dropWhile_le)
  finally have "length b \<le> length cs" .
  moreover have "length rest \<le> length b"
    unfolding r using length_dropWhile_le [of vote_char "dropWhile is_space b"]
      length_dropWhile_le [of is_space b] by linarith
  ultimately show "(rest, c # cs) \<in> measure length"
    by simp
qed

text \<open>\<open>href=re.compile(r"^/interest/in\d+")\<close>\<close>

definition interest_href :: "string \<Rightarrow> bool" where
  "interest_href h =
     (case lit ''/interest/in'' h of None \<Rightarrow> False | Some r \<Rightarrow> many1 is_decimal r \<noteq> None)"

text \<open>
  The loop that collects the tags, \<open>if text and text not in seen\<close>; \<open>found\<close> is the list
  \<open>tags\<close> of the source, which holds the same texts as the set \<open>seen\<close>.
\<close>

fun collect_tags :: "string list \<Rightarrow> string list \<Rightarrow> string list" where
  "collect_tags [] found = found"
| "collect_tags (text # texts) found =
     (if text \<noteq> [] \<and> text \<notin> set found then collect_tags texts (found @ [text])
      else collect_tags texts found)"

text \<open>The five parts of \<open>parse_series_metadata\<close>, each on the metadata built so far.\<close>

definition parse_series_name :: "node \<Rightarrow> SeriesMetadata \<Rightarrow> py_error + SeriesMetadata" where
  "parse_series_name soup m =
     (case find (attr_is ''data-testid'' ''hero__pageTitle'') soup of
        Some node \<Rightarrow>
          (let name = get_text_strip node in
           Inr (if name \<noteq> [] then m\<lparr>series_name := name\<rparr> else m))
      | None \<Rightarrow>
          (case find (named ''title'') soup of
             Some t \<Rightarrow>
               (let raw = sub_to_end imdbx_suffix (get_text_strip t);
                    raw = strip (sub_to_end year_suffix raw)
                in Inr (if raw \<noteq> [] then m\<lparr>series_name := raw\<rparr> else m))
           | None \<Rightarrow>
               (case find (\<lambda>t. named ''meta'' t \<and> attr_is ''property'' ''og:title'' t) soup of
                  None \<Rightarrow> Inr m
                | Some og \<Rightarrow>
                    if attr_or_empty og ''content'' \<noteq> []
                    then bindE (attr_item og ''content'')
                           (\<lambda>c. Inr (m\<lparr>series_name := strip c\<rparr>))
                    else Inr m)))"

definition parse_hero_list :: "node \<Rightarrow> SeriesMetadata \<Rightarrow> SeriesMetadata" where
  "parse_hero_list soup m =
     (case find_parent (attr_is ''data-testid'' ''hero__pageTitle'') soup of
        None \<Rightarrow> m
      | Some parent \<Rightarrow>
          (case find (named ''ul'') parent of
             None \<Rightarrow> m
           | Some ul \<Rightarrow>
               foldl (\<lambda>acc item. classify_item item acc) m
                 (map get_text_strip (find_all (named ''li'') ul))))"

definition parse_rating :: "node \<Rightarrow> SeriesMetadata \<Rightarrow> py_error + SeriesMetadata" where
  "parse_rating soup m =
     (case find (attr_is ''data-testid'' ''hero-rating-bar__aggregate-rating'') soup of
        None \<Rightarrow> Inr m
      | Some agg \<Rightarrow>
          bindE
            (case find (attr_is ''data-testid'' ''hero-rating-bar__aggregate-rating__score'') agg of
               None \<Rightarrow> Inr m
             | Some score_div \<Rightarrow>
                 (let spans = find_all (named ''span'') score_div in
                  if spans \<noteq> []
                  then bindE (py_index spans 0)
                         (\<lambda>s. Inr (m\<lparr>imdb_rating := Some (get_text_strip s @ ''/10'')\<rparr>))
                  else Inr m))
            (\<lambda>m1.
               let all_matches = findall_votes (get_text_sep_strip '' '' agg) in
               if all_matches \<noteq> []
               then bindE (py_last all_matches) (\<lambda>v. Inr (m1\<lparr>rating_count := Some v\<rparr>))
               else Inr m1))"

definition parse_popularity :: "node \<Rightarrow> SeriesMetadata \<Rightarrow> SeriesMetadata" where
  "parse_popularity soup m =
     (case find (attr_is ''data-testid'' ''hero-rating-bar__popularity__score'') soup of
        None \<Rightarrow> m
      | Some pop \<Rightarrow> m\<lparr>popularity := Some (get_text_strip pop)\<rparr>)"

definition parse_tags :: "node \<Rightarrow> SeriesMetadata \<Rightarrow> SeriesMetadata" where
  "parse_tags soup m =
     (let found = collect_tags
            (map get_text_strip
               (find_all (\<lambda>t. named ''a'' t \<and> attr_matches ''href'' interest_href t) soup)) []
      in if found \<noteq> [] then m\<lparr>tags := found\<rparr> else m)"

definition parse_series_metadata :: "node \<Rightarrow> string \<Rightarrow> py_error + SeriesMetadata" where
  "parse_series_metadata soup tid =
     bindE (parse_series_name soup (new_metadata tid tid)) (\<lambda>m1.
     bindE (parse_rating soup (parse_hero_list soup m1)) (\<lambda>m2.
     Inr (parse_tags soup (parse_popularity soup m2))))"

section \<open>Episode cards: the helpers of \<open>_parse.parse_episodes\<close>\<close>

text \<open>
  The class \<open>\w\<close> of \<open>re\<close> on code points below 256: what \<open>str.isalnum\<close> accepts, and
  the underscore.
\<close>

definition is_word :: "char \<Rightarrow> bool" where
  "is_word c =
     (let n = code c in
      (48 \<le> n \<and> n \<le> 57) \<or> (65 \<le> n \<and> n \<le> 90) \<or> (97 \<le> n \<and> n \<le> 122) \<or> n = 95
      \<or> n \<in> {170, 178, 179, 181, 185, 186, 188, 189, 190}
      \<or> (192 \<le> n \<and> n \<le> 214) \<or> (216 \<le> n \<and> n \<le> 246) \<or> (248 \<le> n \<and> n \<le> 255))"

text \<open>\<open>\d{n}\<close>\<close>

definition decimals :: "nat \<Rightarrow> string \<Rightarrow> string option" where
  "decimals n s =
     (if n \<le> length s \<and> list_all is_decimal (take n s) then Some (drop n s) else None)"

text \<open>
  A search that gives the first match, for a pattern whose match at a place is described by
  \<open>pat\<close>; in the second form \<open>pat\<close> is also told the character before the place, as
  \<open>\b\<close> needs it.
\<close>

fun search_first :: "(string \<Rightarrow> 'a option) \<Rightarrow> string \<Rightarrow> 'a option" where
  "search_first pat [] = pat []"
| "search_first pat (c # cs) =
     (case pat (c # cs) of Some m \<Rightarrow> Some m | None \<Rightarrow> search_first pat cs)"

fun search_after :: "(char option \<Rightarrow> string \<Rightarrow> 'a option) \<Rightarrow> char option \<Rightarrow> string \<Rightarrow> 'a option" where
  "search_after pat prev [] = pat prev []"
| "search_after pat prev (c # cs) =
     (case pat prev (c # cs) of Some m \<Rightarrow> Some m | None \<Rightarrow> search_after pat (Some c) cs)"

text \<open>
  \<open>S\d+\.E\d+\<close> at the start of a string: with \<open>re.I\<close> (\<open>_find_episode_cards\<close>,
  \<open>_find_title_text\<close>) and without (\<open>_find_description\<close>).
\<close>

definition se_ci_at :: "string \<Rightarrow> bool" where
  "se_ci_at s =
     (Option.bind (Option.bind (Option.bind (Option.bind (lit_ci ''s'' s) (many1 is_decimal))
        (lit ''.'')) (lit_ci ''e'')) (many1 is_decimal) \<noteq> None)"

definition se_at :: "string \<Rightarrow> bool" where
  "se_at s =
     (Option.bind (Option.bind (Option.bind (Option.bind (lit ''S'' s) (many1 is_decimal))
        (lit ''.'')) (lit ''E'')) (many1 is_decimal) \<noteq> None)"

text \<open>\<open>re.match(r"S(\d+)\.E(\d+)", episode_code, re.I)\<close>: the two groups.\<close>

definition se_match :: "string \<Rightarrow> (string \<times> string) option" where
  "se_match s =
     (case lit_ci ''s'' s of
        None \<Rightarrow> None
      | Some a \<Rightarrow>
          if takeWhile is_decimal a = [] then None
          else (case Option.bind (lit ''.'' (dropWhile is_decimal a)) (lit_ci ''e'') of
                  None \<Rightarrow> None
                | Some d \<Rightarrow>
                    if takeWhile is_decimal d = [] then None
                    else Some (takeWhile is_decimal a, takeWhile is_decimal d)))"

text \<open>\<open>/title/tt\d+/\?ref_=ttep\<close> and \<open>/title/tt\d+/\<close> at the start of a string.\<close>

definition ep_link_at :: "string \<Rightarrow> bool" where
  "ep_link_at s =
     (Option.bind (Option.bind (lit ''/title/tt'' s) (many1 is_decimal)) (lit ''/?ref_=ttep'')
        \<noteq> None)"

definition title_link_at :: "string \<Rightarrow> bool" where
  "title_link_at s =
     (Option.bind (Option.bind (lit ''/title/tt'' s) (many1 is_decimal)) (lit ''/'') \<noteq> None)"

text \<open>\<open>_find_episode_cards\<close> and its three tiers.\<close>

definition find_episode_cards :: "node \<Rightarrow> node list" where
  "find_episode_cards soup =
     (let cards1 = filter (\<lambda>a. find (\<lambda>t. named ''a'' t
                                         \<and> attr_matches ''href'' (re_search ep_link_at) t) a \<noteq> None
                              \<and> re_search se_ci_at (get_text a))
                     (find_all (named ''article'') soup)
      in if cards1 \<noteq> [] then cards1
      else (let cards2 = filter (\<lambda>t. re_search se_ci_at (get_text t))
                           (find_all (attr_matches ''data-testid''
                                        (\<lambda>v. contains (lower v) ''episode'')) soup)
            in if cards2 \<noteq> [] then cards2
            else filter (\<lambda>a. re_search se_ci_at (get_text a))
                   (find_all (named ''article'') soup)))"

text \<open>\<open>_find_title_text\<close>; \<open>link["aria-label"]\<close> is the subscription that can raise.\<close>

definition find_title_text :: "node \<Rightarrow> py_error + string" where
  "find_title_text ecard =
     (case find (attr_is ''data-testid'' ''slate-list-card-title'') ecard of
        Some node \<Rightarrow> Inr (get_text_strip node)
      | None \<Rightarrow>
          (case filter (\<lambda>text. re_search se_ci_at text \<and> length text < 200)
                  (map get_text_strip
                     (find_all (named_in [''div'', ''h4'', ''h3'', ''span'']) ecard)) of
             text # _ \<Rightarrow> Inr text
           | [] \<Rightarrow>
               (case find (\<lambda>t. named ''a'' t \<and> has_attr ''aria-label'' t) ecard of
                  Some link \<Rightarrow> attr_item link ''aria-label''
                | None \<Rightarrow> Inr [])))"

text \<open>
  The pattern \<open>DATE\<close> of \<open>_find_air_date\<close>, with \<open>re.I\<close>, at the start of a string:
  a day name, comma, a word, a number, comma and a year; or a day number, a word and a
  year; or an ISO date.
\<close>

definition day_name :: "string \<Rightarrow> string option" where
  "day_name s =
     (if lower (take 3 s) \<in> set [''mon'', ''tue'', ''wed'', ''thu'', ''fri'', ''sat'', ''sun'']
      then Some (drop 3 s) else None)"

definition date_at :: "string \<Rightarrow> bool" where
  "date_at s =
     (Option.bind (Option.bind (Option.bind (Option.bind (Option.bind (Option.bind
        (Option.bind (Option.bind (day_name s) (lit '','')) (many1 is_space)) (many1 is_word))
        (many1 is_space)) (many1 is_decimal)) (lit '','')) (many1 is_space)) (decimals 4)
        \<noteq> None
      \<or> Option.bind (Option.bind (Option.bind (Option.bind
           (if takeWhile is_decimal s = [] then None
            else Some (drop (min 2 (length (takeWhile is_decimal s))) s))
           (many1 is_space)) (many1 is_word)) (many1 is_space)) (decimals 4) \<noteq> None
      \<or> Option.bind (Option.bind (Option.bind (Option.bind (decimals 4 s) (lit ''-''))
           (decimals 2)) (lit ''-'')) (decimals 2) \<noteq> None)"

text \<open>\<open>tag.get("class", [])\<close>: the attribute split at whitespace.\<close>

fun words :: "string \<Rightarrow> string \<Rightarrow> string list" where
  "words cur [] = (if cur = [] then [] else [cur])"
| "words cur (c # cs) =
     (if is_space c then (if cur = [] then words [] cs else cur # words [] cs)
      else words (cur @ [c]) cs)"

definition class_list :: "node \<Rightarrow> string list" where
  "class_list t = (case attr t ''class'' of None \<Rightarrow> [] | Some v \<Rightarrow> words [] v)"

definition find_air_date :: "node \<Rightarrow> string" where
  "find_air_date ecard =
     (case filter (\<lambda>text. re_search date_at text \<and> length text < 50)
             (map get_text_strip (find_all (named_in [''span'', ''div'', ''time'']) ecard)) of
        text # _ \<Rightarrow> text
      | [] \<Rightarrow>
          (case filter (\<lambda>t. contains (lower (join '' '' (class_list t))) ''date''
                             \<or> contains (lower (join '' '' (class_list t))) ''air'')
                  (find_all (named_in [''span'', ''div'']) ecard) of
             t # _ \<Rightarrow> get_text_strip t
           | [] \<Rightarrow> []))"

text \<open>
  \<open>_find_description\<close>. Its pattern \<open>DATE\<close> is \<open>\d{4}|Mon|Tue|Wed|Thu|Fri|Sat|Sun\<close>
  with \<open>re.I\<close>; \<open>max(candidates, key=len)\<close> is the first longest candidate.
\<close>

definition short_date_at :: "string \<Rightarrow> bool" where
  "short_date_at s = (decimals 4 s \<noteq> None \<or> day_name s \<noteq> None)"

definition longest :: "string list \<Rightarrow> py_error + string" where
  "longest xs =
     (case xs of [] \<Rightarrow> Inl ValueError
      | x # ys \<Rightarrow> Inr (foldl (\<lambda>m y. if length m < length y then y else m) x ys))"

fun first_testid_text :: "string list \<Rightarrow> node \<Rightarrow> string option" where
  "first_testid_text [] ecard = None"
| "first_testid_text (testid # testids) ecard =
     (case find (attr_matches ''data-testid'' (\<lambda>v. contains (lower v) testid)) ecard of
        Some node \<Rightarrow> Some (get_text_strip node)
      | None \<Rightarrow> first_testid_text testids ecard)"

definition find_description :: "node \<Rightarrow> py_error + string" where
  "find_description ecard =
     (case first_testid_text [''plot'', ''synopsis'', ''description'', ''html-content''] ecard of
        Some text \<Rightarrow> Inr text
      | None \<Rightarrow>
          (case filter (\<lambda>text. 30 < length text)
                  (map get_text_strip
                     (find_all (\<lambda>t. named ''div'' t \<and> attr_is ''role'' ''presentation'' t) ecard)) of
             text # _ \<Rightarrow> Inr text
           | [] \<Rightarrow>
               (let candidates =
                      filter (\<lambda>text. 30 < length text \<and> \<not> re_search se_at text
                                      \<and> \<not> re_search short_date_at (take 15 text))
                        (map get_text_strip
                           (filter (\<lambda>t. find (named_in [''div'', ''p'']) t = None)
                              (find_all (named_in [''div'', ''p'']) ecard)))
                in if candidates \<noteq> [] then longest candidates else Inr [])))"

text \<open>
  \<open>_find_rating\<close>. \<open>first_number\<close> is \<open>re.search(r"([\d.]+)", s)\<close>, \<open>paren_votes\<close> is
  \<open>re.search(r"\(\s*([\d.,KkMm]+)\s*\)", s)\<close> and \<open>score_at\<close> is
  \<open>\b(\d\.\d)\s*/\s*10\b\<close> at a place, given the character before it.
\<close>

definition number_char :: "char \<Rightarrow> bool" where
  "number_char c = (is_decimal c \<or> c = CHR ''.'')"

definition first_number :: "string \<Rightarrow> string option" where
  "first_number s =
     (case dropWhile (\<lambda>c. \<not> number_char c) s of [] \<Rightarrow> None
      | c # cs \<Rightarrow> Some (takeWhile number_char (c # cs)))"

definition paren_votes_at :: "string \<Rightarrow> string option" where
  "paren_votes_at s =
     (case lit ''('' s of
        None \<Rightarrow> None
      | Some a \<Rightarrow>
          (let g = takeWhile vote_char (dropWhile is_space a) in
           if g \<noteq> []
              \<and> lit '')'' (dropWhile is_space (dropWhile vote_char (dropWhile is_space a))) \<noteq> None
           then Some g else None))"

definition paren_votes :: "string \<Rightarrow> string option" where
  "paren_votes s = search_first paren_votes_at s"

definition score_at :: "char option \<Rightarrow> string \<Rightarrow> string option" where
  "score_at prev s =
     (if (case prev of None \<Rightarrow> False | Some b \<Rightarrow> is_word b) then None
      else (case s of
              d1 # p # d2 # r \<Rightarrow>
                if is_decimal d1 \<and> p = CHR ''.'' \<and> is_decimal d2
                then (case Option.bind (lit ''/'' (dropWhile is_space r))
                             (\<lambda>a. lit ''10'' (dropWhile is_space a)) of
                        None \<Rightarrow> None
                      | Some e \<Rightarrow>
                          if e = [] \<or> \<not> is_word (hd e) then Some [d1, p, d2] else None)
                else None
            | _ \<Rightarrow> None))"

text \<open>\<open>f"{score}/10 ({votes})" if votes else f"{score}/10"\<close>\<close>

definition rating_text :: "string \<Rightarrow> string \<Rightarrow> string" where
  "rating_text score full =
     (case paren_votes full of
        Some votes \<Rightarrow> score @ ''/10 ('' @ votes @ '')''
      | None \<Rightarrow> score @ ''/10'')"

fun rating_groups :: "string list \<Rightarrow> node \<Rightarrow> string option" where
  "rating_groups [] ecard = None"
| "rating_groups (testid # testids) ecard =
     (case find (attr_is ''data-testid'' testid) ecard of
        None \<Rightarrow> rating_groups testids ecard
      | Some node \<Rightarrow>
          (case first_number (attr_or_empty node ''aria-label'') of
             Some score \<Rightarrow> Some (rating_text score (get_text_sep_strip '' '' node))
           | None \<Rightarrow> rating_groups testids ecard))"

definition find_rating :: "node \<Rightarrow> string" where
  "find_rating ecard =
     (case rating_groups [''ratingGroup--imdb-rating'', ''ratingGroup--container''] ecard of
        Some r \<Rightarrow> r
      | None \<Rightarrow>
          (case Option.bind
                  (find (\<lambda>t. named ''span'' t
                            \<and> attr_matches ''aria-label''
                                (\<lambda>v. contains (lower v) ''imdbx rating'') t) ecard)
                  (\<lambda>node. first_number (attr_or_empty node ''aria-label'')) of
             Some score \<Rightarrow> score @ ''/10''
           | None \<Rightarrow>
               (case search_after score_at None (get_text_sep '' '' ecard) of
                  Some score \<Rightarrow> rating_text score (get_text_sep '' '' ecard)
                | None \<Rightarrow> ''N/A'')))"

text \<open>
  \<open>_find_cover_image\<close>. In the second loop \<open>int(img.get("width", 0))\<close> and the call of
  \<open>_best_image\<close> stand in a \<open>try\<close> that catches \<open>ValueError\<close>.
\<close>

fun cover_by_cdn :: "node list \<Rightarrow> (py_error + string option) option" where
  "cover_by_cdn [] = None"
| "cover_by_cdn (img # imgs) =
     (if contains (attr_or_empty img ''srcset'' @ attr_or_empty img ''src'') ''media-amazon.com''
      then Some (best_image img) else cover_by_cdn imgs)"

definition wide_enough :: "node \<Rightarrow> py_error + bool" where
  "wide_enough img =
     (case attr img ''width'' of
        None \<Rightarrow> Inr False
      | Some w \<Rightarrow> bindE (py_int w) (\<lambda>n. Inr (80 \<le> n)))"

fun cover_by_size :: "node list \<Rightarrow> py_error + string option" where
  "cover_by_size [] = Inr None"
| "cover_by_size (img # imgs) =
     (let by_src =
            (if attr_or_empty img ''src'' \<noteq> []
                \<and> \<not> endswith (attr_or_empty img ''src'') ''.svg''
                \<and> \<not> contains (lower (attr_or_empty img ''src'')) ''icon''
             then best_image img else cover_by_size imgs)
      in case wide_enough img of
           Inl ValueError \<Rightarrow> by_src
         | Inl e \<Rightarrow> Inl e
         | Inr True \<Rightarrow>
             (case best_image img of Inl ValueError \<Rightarrow> by_src | r \<Rightarrow> r)
         | Inr False \<Rightarrow> by_src)"

definition find_cover_image :: "node \<Rightarrow> py_error + string option" where
  "find_cover_image ecard =
     (case cover_by_cdn (find_all (named ''img'') ecard) of
        Some r \<Rightarrow> r
      | None \<Rightarrow> cover_by_size (find_all (named ''img'') ecard))"

text \<open>\<open>_find_episode_link\<close>\<close>

definition BASE_URL :: string where
  "BASE_URL = ''https://www.imdb.com''"

definition absolute :: "string \<Rightarrow> string" where
  "absolute href = (if startswith href ''/'' then BASE_URL @ href else href)"

fun first_ep_link :: "node list \<Rightarrow> (py_error + string) option" where
  "first_ep_link [] = None"
| "first_ep_link (a # as) =
     (case attr_item a ''href'' of
        Inl e \<Rightarrow> Some (Inl e)
      | Inr href \<Rightarrow>
          if re_search title_link_at href \<and> contains href ''ref_=ttep''
          then Some (Inr (absolute href)) else first_ep_link as)"

definition find_episode_link :: "node \<Rightarrow> py_error + string" where
  "find_episode_link ecard =
     (case first_ep_link (find_all (\<lambda>t. named ''a'' t \<and> has_attr ''href'' t) ecard) of
        Some r \<Rightarrow> r
      | None \<Rightarrow>
          (case find (\<lambda>t. named ''a'' t \<and> attr_matches ''href'' (re_search title_link_at) t) ecard of
             Some a \<Rightarrow> bindE (attr_item a ''href'') (\<lambda>href. Inr (absolute href))
           | None \<Rightarrow> Inr []))"

section \<open>Episodes: \<open>_parse.parse_episodes\<close>\<close>

text \<open>
  \<open>re.split(r"\s*[\<dots>]\s*", raw, maxsplit=1)\<close>, where the class holds the two bullets
  U+2219 and U+00B7; only the second is a code point below 256. The string is cut at the
  first bullet, with the whitespace around it.
\<close>

definition is_bullet :: "char \<Rightarrow> bool" where
  "is_bullet c = (code c = 183)"

fun split_bullet :: "string \<Rightarrow> string \<Rightarrow> string list" where
  "split_bullet cur [] = [cur]"
| "split_bullet cur (c # cs) =
     (case dropWhile is_space (c # cs) of
        [] \<Rightarrow> split_bullet (cur @ [c]) cs
      | b # r \<Rightarrow>
          if is_bullet b then [cur, dropWhile is_space r]
          else split_bullet (cur @ [c]) cs)"

text \<open>
  The body of the loop of \<open>parse_episodes\<close> for one card, and the generator run to its
  end, as \<open>list(parse_episodes(soup))\<close> does.
\<close>

definition parse_card :: "node \<Rightarrow> py_error + Episode" where
  "parse_card ecard =
     bindE (find_title_text ecard) (\<lambda>raw.
     let parts = split_bullet [] raw in
     bindE (if parts \<noteq> [] then bindE (py_index parts 0) (\<lambda>p. Inr (strip p)) else Inr [])
       (\<lambda>code0.
     bindE (if 1 < length parts then bindE (py_index parts 1) (\<lambda>p. Inr (strip p)) else Inr raw)
       (\<lambda>ep_title.
     bindE (case se_match code0 of
              None \<Rightarrow> Inr (0, 0)
            | Some (g1, g2) \<Rightarrow>
                bindE (py_int g1) (\<lambda>s. bindE (py_int g2) (\<lambda>e. Inr (s, e))))
       (\<lambda>(season_num, episode_num).
     bindE (find_description ecard) (\<lambda>descr.
     bindE (find_cover_image ecard) (\<lambda>cover.
     bindE (find_episode_link ecard) (\<lambda>url.
       Inr \<lparr>episode_code = code0, title = ep_title, season = season_num,
            episode = episode_num, air_date = find_air_date ecard, description = descr,
            rating = find_rating ecard, cover_image = cover, cover_image_local = None,
            imdb_url = url\<rparr>)))))))"

fun parse_cards :: "node list \<Rightarrow> py_error + Episode list" where
  "parse_cards [] = Inr []"
| "parse_cards (ecard # cards) =
     bindE (parse_card ecard) (\<lambda>ep. bindE (parse_cards cards) (\<lambda>eps. Inr (ep # eps)))"

definition parse_episodes :: "node \<Rightarrow> py_error + Episode list" where
  "parse_episodes soup = parse_cards (find_episode_cards soup)"

text \<open>
  The numbers an episode code stands for: those of its \<open>S#.E#\<close> prefix, and \<open>(0, 0)\<close>
  when it has none. This is what \<open>parse_episodes\<close> computes from the groups with \<open>int\<close>
  when \<open>int\<close> returns.
\<close>

definition code_numbers :: "string \<Rightarrow> int \<times> int" where
  "code_numbers c = (case se_match c of None \<Rightarrow> (0, 0)
          | Some (g1, g2) \<Rightarrow> (int (digits_value g1), int (digits_value g2)))"

text \<open>
  The episode code \<open>parse_episodes\<close> reads from a card, \<open>parts[0].strip()\<close>, and whether
  both numbers of a code are short enough for \<open>int\<close> (at most 4300 digits each).
\<close>

definition card_code :: "node \<Rightarrow> string" where
  "card_code ecard =
     (case find_title_text ecard of
        Inl e \<Rightarrow> []
      | Inr raw \<Rightarrow> (case split_bullet [] raw of [] \<Rightarrow> [] | p # _ \<Rightarrow> strip p))"

definition within_limit :: "string \<Rightarrow> bool" where
  "within_limit c =
     (case se_match c of
        None \<Rightarrow> True
      | Some (g1, g2) \<Rightarrow> length g1 \<le> max_str_digits \<and> length g2 \<le> max_str_digits)"
section \<open>Facts about decimal text\<close>








lemma decimal_not_underscore: "is_decimal c \<Longrightarrow> c \<noteq> CHR ''_''"
  by (auto simp: is_decimal_def code_def)

lemma decimal_not_sign: "is_decimal c \<Longrightarrow> c \<noteq> CHR ''-'' \<and> c \<noteq> CHR ''+''"
  by (auto simp: is_decimal_def code_def)

lemma strip_id: "s \<noteq> [] \<Longrightarrow> \<not> is_space (hd s) \<Longrightarrow> \<not> is_space (last s) \<Longrightarrow> strip s = s"
proof -
  assume a: "s \<noteq> []" "\<not> is_space (hd s)" "\<not> is_space (last s)"
  then have "dropWhile is_space s = s"
    by (cases s) simp_all
  moreover from a have "dropWhile is_space (rev s) = rev s"
    by (cases "rev s") (simp_all add: hd_rev)
  ultimately show ?thesis
    by (simp add: strip_def)
qed

lemma decimal_not_int_space: "is_decimal c \<Longrightarrow> \<not> is_int_space c"
  by (auto simp: is_decimal_def is_int_space_def)

lemma int_strip_id:
  "s \<noteq> [] \<Longrightarrow> \<not> is_int_space (hd s) \<Longrightarrow> \<not> is_int_space (last s) \<Longrightarrow> int_strip s = s"
proof -
  assume a: "s \<noteq> []" "\<not> is_int_space (hd s)" "\<not> is_int_space (last s)"
  then have "dropWhile is_int_space s = s"
    by (cases s) simp_all
  moreover from a have "dropWhile is_int_space (rev s) = rev s"
    by (cases "rev s") (simp_all add: hd_rev)
  ultimately show ?thesis
    by (simp add: int_strip_def)
qed

lemma int_literal_body_decimals:
  "ds \<noteq> [] \<Longrightarrow> list_all is_decimal ds \<Longrightarrow> int_literal_body ds"
  by (induction ds rule: int_literal_body.induct) (auto simp: decimal_not_underscore)

lemma filter_underscore_decimals:
  "list_all is_decimal ds \<Longrightarrow> filter (\<lambda>c. c \<noteq> CHR ''_'') ds = ds"
  by (induction ds) (auto simp: decimal_not_underscore)

text \<open>
  \<open>int()\<close> on a run of decimal digits: the value of the digits when there are at most
  4300 of them, \<open>ValueError\<close> otherwise.
\<close>

lemma py_int_decimals_limit:
  assumes "ds \<noteq> []" and "list_all is_decimal ds"
  shows "py_int ds = (if max_str_digits < length ds then Inl ValueError
                      else Inr (int (digits_value ds)))"
proof -
  from assms have h: "is_decimal (hd ds)" and l: "is_decimal (last ds)"
    by (cases ds; simp add: list_all_iff)+
  then have s: "int_strip ds = ds"
    using assms(1) by (simp add: int_strip_id decimal_not_int_space)
  from h have "hd ds \<noteq> CHR ''-''" "hd ds \<noteq> CHR ''+''"
    using decimal_not_sign by blast+
  then show ?thesis
    using assms
    by (simp add: py_int_def s Let_def int_literal_body_decimals filter_underscore_decimals)
qed


lemma py_int_too_long:
  assumes "ds \<noteq> []" and "list_all is_decimal ds" and "max_str_digits < length ds"
  shows "py_int ds = Inl ValueError"
  using assms by (simp add: py_int_decimals_limit)

lemma py_int_only_ValueError: "py_int s = Inl e \<Longrightarrow> e = ValueError"
  by (simp add: py_int_def Let_def split: if_splits)













section \<open>Fetch client: retry and backoff\<close>

lemma fetch_attempts_gets_bound:
  "length (gets (snd (fetch_attempts session url retries ks))) \<le> length ks"
  by (induction ks) (auto simp: gets_def Let_def split: attempt_outcome.splits)

lemma fetch_attempts_no_raise:
  "\<forall>k \<in> set ks. \<forall>e. session url k \<noteq> Uncaught e
     \<Longrightarrow> \<exists>r. fst (fetch_attempts session url retries ks) = Inr r"
  by (induction ks) (auto simp: Let_def split: attempt_outcome.splits)

text \<open>
  C6. With the default \<open>retries = 3\<close>, \<open>http_fetch\<close> sends at most three requests.
  When the attempts before attempt \<open>k \<le> 3\<close> raise a request exception and attempt
  \<open>k\<close> returns a document, the caller gets that document, after a sleep of
  \<open>1.5 * j\<close> seconds behind each failed attempt \<open>j\<close>. When all three attempts raise
  a request exception, the caller gets \<open>None\<close> after sleeps of 1.5 and 3 seconds (none
  behind the last attempt). Whenever every failure is a request exception, the function
  returns and raises nothing.
\<close>

theorem http_fetch_retries_then_none:
  "length (gets (snd (http_fetch session url 3))) \<le> 3
   \<and> (session url 1 = Returned d \<longrightarrow>
         http_fetch session url 3 = (Inr (Some d), [Get 1]))
   \<and> (session url 1 = RequestException \<and> session url 2 = Returned d \<longrightarrow>
         http_fetch session url 3 = (Inr (Some d), [Get 1, Sleep (3 / 2), Get 2]))
   \<and> (session url 1 = RequestException \<and> session url 2 = RequestException
        \<and> session url 3 = Returned d \<longrightarrow>
         http_fetch session url 3
           = (Inr (Some d), [Get 1, Sleep (3 / 2), Get 2, Sleep 3, Get 3]))
   \<and> (session url 1 = RequestException \<and> session url 2 = RequestException
        \<and> session url 3 = RequestException \<longrightarrow>
         http_fetch session url 3 = (Inr None, [Get 1, Sleep (3 / 2), Get 2, Sleep 3, Get 3]))
   \<and> ((\<forall>k e. session url k \<noteq> Uncaught e) \<longrightarrow>
         (\<exists>r. fst (http_fetch session url 3) = Inr r))"
proof -
  have ks: "[1 ..< 3 + 1] = [1, 2, 3::nat]"
    by code_simp
  have h: "http_fetch session url 3 = fetch_attempts session url 3 [1, 2, 3]"
    unfolding http_fetch_def ks ..
  have bound: "length (gets (snd (http_fetch session url 3))) \<le> 3"
    unfolding h using fetch_attempts_gets_bound [of session url 3 "[1, 2, 3]"] by simp
  have total: "(\<forall>k e. session url k \<noteq> Uncaught e) \<longrightarrow>
      (\<exists>r. fst (http_fetch session url 3) = Inr r)"
    unfolding h using fetch_attempts_no_raise [of "[1, 2, 3]" session url 3] by simp
  have rest: "(session url 1 = Returned d \<longrightarrow>
         http_fetch session url 3 = (Inr (Some d), [Get 1]))
   \<and> (session url 1 = RequestException \<and> session url 2 = Returned d \<longrightarrow>
         http_fetch session url 3 = (Inr (Some d), [Get 1, Sleep (3 / 2), Get 2]))
   \<and> (session url 1 = RequestException \<and> session url 2 = RequestException
        \<and> session url 3 = Returned d \<longrightarrow>
         http_fetch session url 3
           = (Inr (Some d), [Get 1, Sleep (3 / 2), Get 2, Sleep 3, Get 3]))
   \<and> (session url 1 = RequestException \<and> session url 2 = RequestException
        \<and> session url 3 = RequestException \<longrightarrow>
         http_fetch session url 3 = (Inr None, [Get 1, Sleep (3 / 2), Get 2, Sleep 3, Get 3]))"
    unfolding h by simp
  show ?thesis
    using bound total rest by blast
qed

theorem http_fetch_retries_then_none_witness:
  "http_fetch (\<lambda>u k. if k < 3 then RequestException else Returned ''page'') ''u'' 3
     = (Inr (Some ''page''), [Get 1, Sleep (3 / 2), Get 2, Sleep 3, Get 3])
   \<and> http_fetch (\<lambda>u k. (RequestException :: string attempt_outcome)) ''u'' 3
     = (Inr None, [Get 1, Sleep (3 / 2), Get 2, Sleep 3, Get 3])"
  using http_fetch_retries_then_none
          [of "\<lambda>u k. if k < 3 then RequestException else Returned ''page''" "''u''" "''page''"]
        http_fetch_retries_then_none
          [of "\<lambda>u k. (RequestException :: string attempt_outcome)" "''u''" "''page''"]
  by simp

section \<open>Load-more expansion: after a timed-out wait for growth\<close>

text \<open>
  C2 as stated fails: a pass whose click succeeded, whose URL did not change and whose wait
  for more cards timed out does fall back to the wait for network idle, but when that wait
  times out too the loop is left, it does not scan again.
\<close>

theorem expand_rescan_counterexample:
  "\<not> (\<forall>it. find_call it = Completed \<and> candidate it \<and> count_call it = Completed
          \<and> inner_text_call it = Completed \<and> scroll_call it = Completed
          \<and> click_call it = Completed \<and> \<not> url_changed it \<and> growth_call it = TimedOut
        \<longrightarrow> fst (expand_step it) = Scanning)"
proof
  let ?it = "\<lparr>find_call = Completed, candidate = True, count_call = Completed,
              inner_text_call = Completed, scroll_call = Completed,
              click_call = Completed, url_changed = False, goto_call = Completed,
              selector_call = Completed, growth_call = TimedOut, idle_call = TimedOut\<rparr>"
  assume "\<forall>it. find_call it = Completed \<and> candidate it \<and> count_call it = Completed
          \<and> inner_text_call it = Completed \<and> scroll_call it = Completed
          \<and> click_call it = Completed \<and> \<not> url_changed it \<and> growth_call it = TimedOut
        \<longrightarrow> fst (expand_step it) = Scanning"
  then have "fst (expand_step ?it) = Scanning"
    by simp
  then show False
    by (simp add: expand_step_def)
qed

text \<open>
  C2, amended. Take a pass in which a candidate was found and clicked, the URL was left
  unchanged and the wait for the card count to grow timed out. The pass then waits for
  network idle, and the calls it makes up to there are the search, the count, the three
  calls on the element, the 0.4 s pause and the two waits, with no navigation.
  \<^item> If the wait for network idle completes, the pass ends with the 0.3 s pause, in
    \<open>Scanning\<close>: the loop goes on with the next pass (whose first call is the search),
    the click counted.
  \<^item> If it times out, the loop is left through \<open>except PWTimeout\<close>, and if it raises
    anything else through \<open>except Exception\<close>: no pause and no other call is made in the
    loop, the click is counted, and \<open>_expand_episodes\<close> makes its final count of the
    cards and returns, unless that count raises, which leaves the procedure.
\<close>

theorem expand_fallback_then_rescan_or_break:
  assumes "find_call it = Completed" and "candidate it" and "count_call it = Completed"
    and "inner_text_call it = Completed"
    and "scroll_call it = Completed" and "click_call it = Completed"
    and "\<not> url_changed it" and "growth_call it = TimedOut"
    and "calls = [FindLoadmore, CountArticles, InnerText, ScrollIntoView, Click, Pause (2 / 5),
                  WaitForGrowth, WaitForNetworkIdle]"
  shows "expand_step it
           = (case idle_call it of
                Completed \<Rightarrow> (Scanning, True, calls @ [Pause (3 / 10)])
              | TimedOut \<Rightarrow> (TimeoutBreak, True, calls)
              | Raised \<Rightarrow> (ErrorBreak, True, calls))
    \<and> expand_loop n (it # its)
        = (case idle_call it of
             Completed \<Rightarrow>
               (fst (expand_loop (n + 1) its), fst (snd (expand_loop (n + 1) its)),
                calls @ [Pause (3 / 10)] @ snd (snd (expand_loop (n + 1) its)))
           | TimedOut \<Rightarrow> (TimeoutBreak, n + 1, calls)
           | Raised \<Rightarrow> (ErrorBreak, n + 1, calls))
    \<and> (idle_call it \<noteq> Completed \<longrightarrow>
         expand_episodes (it # its) after_call
           = (if after_call = Completed then outer_except (idle_call it) else Propagated,
              1, calls @ [CountArticles]))"
  using assms
  by (cases "idle_call it")
     (simp_all add: expand_step_def expand_episodes_def split: prod.splits)

theorem expand_fallback_then_rescan_or_break_witness:
  "expand_loop 0
     [\<lparr>find_call = Completed, candidate = True, count_call = Completed,
       inner_text_call = Completed, scroll_call = Completed,
       click_call = Completed, url_changed = False, goto_call = Completed,
       selector_call = Completed, growth_call = TimedOut, idle_call = Completed\<rparr>,
      \<lparr>find_call = Completed, candidate = False, count_call = Completed,
       inner_text_call = Completed, scroll_call = Completed,
       click_call = Completed, url_changed = False, goto_call = Completed,
       selector_call = Completed, growth_call = Completed, idle_call = Completed\<rparr>]
     = (Done, 1,
        [FindLoadmore, CountArticles, InnerText, ScrollIntoView, Click, Pause (2 / 5),
         WaitForGrowth, WaitForNetworkIdle, Pause (3 / 10), FindLoadmore])
   \<and> expand_episodes
     [\<lparr>find_call = Completed, candidate = True, count_call = Completed,
       inner_text_call = Completed, scroll_call = Completed,
       click_call = Completed, url_changed = False, goto_call = Completed,
       selector_call = Completed, growth_call = TimedOut, idle_call = TimedOut\<rparr>,
      \<lparr>find_call = Completed, candidate = True, count_call = Completed,
       inner_text_call = Completed, scroll_call = Completed,
       click_call = Completed, url_changed = False, goto_call = Completed,
       selector_call = Completed, growth_call = Completed, idle_call = Completed\<rparr>]
     Completed
     = (TimeoutBreak, 1,
        [FindLoadmore, CountArticles, InnerText, ScrollIntoView, Click, Pause (2 / 5),
         WaitForGrowth, WaitForNetworkIdle, CountArticles])"
  using expand_fallback_then_rescan_or_break
      [of "\<lparr>find_call = Completed, candidate = True, count_call = Completed,
       inner_text_call = Completed, scroll_call = Completed,
       click_call = Completed, url_changed = False, goto_call = Completed,
       selector_call = Completed, growth_call = TimedOut, idle_call = Completed\<rparr>"
       "[FindLoadmore, CountArticles, InnerText, ScrollIntoView, Click, Pause (2 / 5),
         WaitForGrowth, WaitForNetworkIdle]" 0
       "[\<lparr>find_call = Completed, candidate = False, count_call = Completed,
       inner_text_call = Completed, scroll_call = Completed,
       click_call = Completed, url_changed = False, goto_call = Completed,
       selector_call = Completed, growth_call = Completed, idle_call = Completed\<rparr>]" Completed]
    expand_fallback_then_rescan_or_break
      [of "\<lparr>find_call = Completed, candidate = True, count_call = Completed,
       inner_text_call = Completed, scroll_call = Completed,
       click_call = Completed, url_changed = False, goto_call = Completed,
       selector_call = Completed, growth_call = TimedOut, idle_call = TimedOut\<rparr>"
       "[FindLoadmore, CountArticles, InnerText, ScrollIntoView, Click, Pause (2 / 5),
         WaitForGrowth, WaitForNetworkIdle]" 0
       "[\<lparr>find_call = Completed, candidate = True, count_call = Completed,
       inner_text_call = Completed, scroll_call = Completed,
       click_call = Completed, url_changed = False, goto_call = Completed,
       selector_call = Completed, growth_call = Completed, idle_call = Completed\<rparr>]" Completed]
  by (simp add: expand_step_def)

section \<open>Load-more finder: links that navigate are never returned\<close>

lemma strategy1_result:
  "strategy1 els = Some el \<Longrightarrow> el \<in> set els"
  by (induction els) (auto split: if_splits)

lemma strategy2_result:
  "strategy2 els = Some el
     \<Longrightarrow> el \<in> set els \<and> \<not> is_navigating_href (Some (href_or_empty el))"
  by (induction els) (auto split: if_splits)

lemma strategy3_result:
  "strategy3 page pairs = Some el
     \<Longrightarrow> el \<in> set page \<and> visible el \<and> (tag el = ''button'' \<or> tag el = ''a'')
         \<and> (tag el = ''a'' \<longrightarrow> \<not> is_navigating_href (Some (href_or_empty el)))"
  if "\<forall>p \<in> set pairs. snd p = ''button'' \<or> snd p = ''a''"
  using that
proof (induction pairs)
  case Nil
  then show ?case by simp
next
  case (Cons p pairs)
  obtain frag t where p: "p = (frag, t)"
    by (cases p)
  show ?case
  proof (cases "filter (testid_selector frag t) page")
    case Nil
    with Cons p show ?thesis by simp
  next
    case (Cons x xs)
    then have "x \<in> set (filter (testid_selector frag t) page)"
      by simp
    then have x: "x \<in> set page" "tag x = t" "visible x"
      by (auto simp: testid_selector_def)
    from Cons.prems(2) p have t: "t = ''button'' \<or> t = ''a''"
      by simp
    from Cons.IH Cons.prems p Cons x t show ?thesis
      by (auto split: if_splits)
  qed
qed

lemma strategy4_scan_result:
  "strategy4_scan t els = Some el
     \<Longrightarrow> el \<in> set els \<and> (t = ''a'' \<longrightarrow> \<not> is_navigating_href (Some (href_or_empty el)))"
  by (induction els) (auto split: if_splits)

lemma strategy4_result:
  "strategy4 page ts = Some el
     \<Longrightarrow> el \<in> set page \<and> visible el \<and> tag el \<in> set ts
         \<and> (tag el = ''a'' \<longrightarrow> \<not> is_navigating_href (Some (href_or_empty el)))"
proof (induction ts)
  case Nil
  then show ?case by simp
next
  case (Cons t ts)
  show ?case
  proof (cases "strategy4_scan t (filter (aria_selector t) page)")
    case None
    with Cons show ?thesis by simp
  next
    case (Some x)
    with Cons.prems have "x = el" by simp
    with Some strategy4_scan_result [of t "filter (aria_selector t) page" el]
    show ?thesis by (auto simp: aria_selector_def)
  qed
qed

lemma find_loadmore_result:
  assumes "find_loadmore page = Some el"
  shows "el \<in> set page \<and> visible el \<and> (tag el = ''button'' \<or> tag el = ''a'')
         \<and> (tag el = ''a'' \<longrightarrow> \<not> is_navigating_href (Some (href_or_empty el)))"
proof (cases "strategy1 (filter (\<lambda>el. tag el = ''button'' \<and> visible el) page)")
  case (Some x)
  with assms have "x = el" by (simp add: find_loadmore_def)
  with Some strategy1_result [of "filter (\<lambda>el. tag el = ''button'' \<and> visible el) page" el]
  show ?thesis by auto
next
  case n1: None
  show ?thesis
  proof (cases "strategy2 (filter (\<lambda>el. tag el = ''a'' \<and> visible el) page)")
    case (Some x)
    with assms n1 have "x = el" by (simp add: find_loadmore_def)
    with Some strategy2_result [of "filter (\<lambda>el. tag el = ''a'' \<and> visible el) page" el]
    show ?thesis by auto
  next
    case n2: None
    let ?pairs = "[(''see-more'', ''button''), (''see-more'', ''a''),
                   (''load-more'', ''button''), (''load-more'', ''a''),
                   (''expand'', ''button''), (''expand'', ''a'')]"
    show ?thesis
    proof (cases "strategy3 page ?pairs")
      case (Some x)
      with assms n1 n2 have "x = el" by (simp add: find_loadmore_def)
      with Some strategy3_result [of ?pairs page el]
      show ?thesis by simp
    next
      case None
      with assms n1 n2 have "strategy4 page [''button'', ''a''] = Some el"
        by (simp add: find_loadmore_def)
      from strategy4_result [OF this] show ?thesis by simp
    qed
  qed
qed

text \<open>
  C1 as stated fails: a link whose href is a blank followed by \<open>#more\<close> has a non-empty
  href that does not start with \<open>#\<close> and is no \<open>javascript:\<close> URL, and the finder
  returns it (strategy 2), because \<open>_is_navigating_href\<close> strips the href before it looks
  at it.
\<close>

theorem find_loadmore_navigating_counterexample:
  "\<not> (\<forall>page el. find_loadmore page = Some el \<and> tag el = ''a''
        \<longrightarrow> href_or_empty el = [] \<or> startswith (href_or_empty el) ''#''
            \<or> startswith (lower (href_or_empty el)) ''javascript:'')"
proof
  let ?el = "\<lparr>tag = ''a'', visible = True, enabled = True, inner_text = ''5 more'',
              attrs = [(''href'', '' #more'')], ancestor_testids = [], detached = False\<rparr>"
  assume a: "\<forall>page el. find_loadmore page = Some el \<and> tag el = ''a''
        \<longrightarrow> href_or_empty el = [] \<or> startswith (href_or_empty el) ''#''
            \<or> startswith (lower (href_or_empty el)) ''javascript:''"
  have "find_loadmore [?el] = Some ?el"
    by code_simp
  with a have "href_or_empty ?el = [] \<or> startswith (href_or_empty ?el) ''#''
            \<or> startswith (lower (href_or_empty ?el)) ''javascript:''"
    by simp
  then show False
    by (simp add: href_or_empty_def get_attribute_def startswith_def lower_def)
qed

text \<open>
  C1, amended. Whatever \<open>_find_loadmore\<close> returns is a visible button or link of the
  page, and when it is a link, its href with surrounding whitespace stripped is empty,
  starts with \<open>#\<close>, or starts with \<open>javascript:\<close> in any letter case (an absent href
  counts as empty). So a link whose stripped href is non-empty, does not start with
  \<open>#\<close> and is no \<open>javascript:\<close> URL is returned by none of the four strategies.
\<close>

theorem find_loadmore_never_navigating_link:
  assumes "find_loadmore page = Some el" and "tag el = ''a''"
  shows "el \<in> set page \<and> visible el
    \<and> (strip (href_or_empty el) = [] \<or> startswith (strip (href_or_empty el)) ''#''
        \<or> startswith (lower (strip (href_or_empty el))) ''javascript:'')"
proof -
  from find_loadmore_result [OF assms(1)] assms(2)
  have r: "el \<in> set page" "visible el" "\<not> is_navigating_href (Some (href_or_empty el))"
    by simp_all
  from r(3) have "strip (href_or_empty el) = [] \<or> startswith (strip (href_or_empty el)) ''#''
        \<or> startswith (lower (strip (href_or_empty el))) ''javascript:''"
    by (auto simp: is_navigating_href_def Let_def strip_def split: if_splits)
  with r show ?thesis by simp
qed

theorem find_loadmore_never_navigating_link_witness:
  "find_loadmore
     [\<lparr>tag = ''a'', visible = True, enabled = True, inner_text = ''Load more'',
       attrs = [(''href'', ''/search/title/?sort=rating'')], ancestor_testids = [],
       detached = False\<rparr>,
      \<lparr>tag = ''a'', visible = True, enabled = True, inner_text = ''12 more'',
       attrs = [(''href'', ''JavaScript:void(0)'')], ancestor_testids = [],
       detached = False\<rparr>]
   = Some \<lparr>tag = ''a'', visible = True, enabled = True, inner_text = ''12 more'',
       attrs = [(''href'', ''JavaScript:void(0)'')], ancestor_testids = [],
       detached = False\<rparr>
   \<and> startswith (lower (strip ''JavaScript:void(0)'')) ''javascript:''"
proof -
  let ?nav = "\<lparr>tag = ''a'', visible = True, enabled = True, inner_text = ''Load more'',
       attrs = [(''href'', ''/search/title/?sort=rating'')], ancestor_testids = [],
       detached = False\<rparr>"
  let ?js = "\<lparr>tag = ''a'', visible = True, enabled = True, inner_text = ''12 more'',
       attrs = [(''href'', ''JavaScript:void(0)'')], ancestor_testids = [],
       detached = False\<rparr>"
  have found: "find_loadmore [?nav, ?js] = Some ?js"
    by code_simp
  have "tag ?js = ''a''"
    by simp
  from find_loadmore_never_navigating_link [OF found this]
  have "strip (href_or_empty ?js) = [] \<or> startswith (strip (href_or_empty ?js)) ''#''
        \<or> startswith (lower (strip (href_or_empty ?js))) ''javascript:''"
    by simp
  moreover have "href_or_empty ?js = ''JavaScript:void(0)''"
    by (simp add: href_or_empty_def get_attribute_def)
  moreover have "strip ''JavaScript:void(0)'' \<noteq> []" "\<not> startswith (strip ''JavaScript:void(0)'') ''#''"
    by code_simp+
  ultimately show ?thesis
    using found by simp
qed

section \<open>Image download: the recorded local paths\<close>



























section \<open>Persistence: \<open>save\<close> then \<open>load\<close>\<close>






















section \<open>Season discovery: order, sortedness, and the digit test\<close>

lemma parse_season_numbers_sorted:
  "parse_season_numbers soup = Inr ns \<Longrightarrow> sorted ns \<and> distinct ns"
  by (auto simp: parse_season_numbers_def sorted_set_def split: sum.splits if_splits)

lemma parse_season_numbers_first_strategy:
  "add_numbers (map get_text_strip
                  (find_all (attr_is ''data-testid'' ''tab-season-entry'') soup)) [] = Inr found
     \<Longrightarrow> found \<noteq> [] \<Longrightarrow> parse_season_numbers soup = Inr (sorted_set found)"
  by (simp add: parse_season_numbers_def)

lemma parse_season_numbers_second_strategy:
  "add_numbers (map get_text_strip
                  (find_all (attr_is ''data-testid'' ''tab-season-entry'') soup)) [] = Inr []
     \<Longrightarrow> add_numbers (map (\<lambda>opt. strip (attr_or_empty opt ''value''))
                          (select_options False soup)) [] = Inr found
     \<Longrightarrow> found \<noteq> [] \<Longrightarrow> parse_season_numbers soup = Inr (sorted_set found)"
  by (simp add: parse_season_numbers_def)

lemma parse_season_numbers_markers_3121:
  "parse_season_numbers
     (Tag ''[document]'' []
        [Tag ''li'' [(''data-testid'', ''tab-season-entry'')] [Text ''3''],
         Tag ''li'' [(''data-testid'', ''tab-season-entry'')] [Text ''1''],
         Tag ''li'' [(''data-testid'', ''tab-season-entry'')] [Text ''2''],
         Tag ''li'' [(''data-testid'', ''tab-season-entry'')] [Text ''1''],
         Tag ''a'' [(''href'', ''/title/tt1/episodes/?season=9'')] [Text ''9'']])
   = Inr [1, 2, 3]"
  by code_simp

text \<open>
  C8 at a failing input. A season tab whose text is the superscript two (U+00B2) passes
  \<open>t.isdigit()\<close>, and \<open>int(t)\<close> then raises \<open>ValueError\<close>: \<open>parse_season_numbers\<close> raises
  instead of returning a list.
\<close>

theorem parse_season_numbers_superscript_raises:
  "isdigit [CHR 0xB2]
   \<and> parse_season_numbers
        (Tag ''[document]'' []
           [Tag ''li'' [(''data-testid'', ''tab-season-entry'')] [Text ''1''],
            Tag ''li'' [(''data-testid'', ''tab-season-entry'')] [Text [CHR 0xB2]]])
      = Inl ValueError"
  by code_simp

section \<open>Best image: splitting the source set\<close>
































section \<open>Series metadata: the vote count\<close>

lemma parse_series_name_returns:
  "\<exists>m'. parse_series_name soup m = Inr m'"
proof (cases "find (attr_is ''data-testid'' ''hero__pageTitle'') soup")
  case (Some node)
  then show ?thesis by (simp add: parse_series_name_def Let_def)
next
  case n1: None
  show ?thesis
  proof (cases "find (named ''title'') soup")
    case (Some t)
    with n1 show ?thesis by (simp add: parse_series_name_def Let_def)
  next
    case n2: None
    show ?thesis
    proof (cases "find (\<lambda>t. named ''meta'' t \<and> attr_is ''property'' ''og:title'' t) soup")
      case None
      with n1 n2 show ?thesis by (simp add: parse_series_name_def)
    next
      case (Some og)
      show ?thesis
      proof (cases "attr og ''content''")
        case None
        with n1 n2 Some show ?thesis
          by (simp add: parse_series_name_def attr_or_empty_def)
      next
        case (Some c)
        with n1 n2 \<open>find _ soup = Some og\<close> show ?thesis
          by (simp add: parse_series_name_def attr_or_empty_def attr_item_def)
      qed
    qed
  qed
qed

lemma parse_rating_returns:
  "\<exists>m'. parse_rating soup m = Inr m'
      \<and> rating_count m'
          = (case find (attr_is ''data-testid'' ''hero-rating-bar__aggregate-rating'') soup of
               None \<Rightarrow> rating_count m
             | Some agg \<Rightarrow>
                 if findall_votes (get_text_sep_strip '' '' agg) = [] then rating_count m
                 else Some (last (findall_votes (get_text_sep_strip '' '' agg))))"
proof (cases "find (attr_is ''data-testid'' ''hero-rating-bar__aggregate-rating'') soup")
  case None
  then show ?thesis by (simp add: parse_rating_def)
next
  case (Some agg)
  let ?score = "case find (attr_is ''data-testid'' ''hero-rating-bar__aggregate-rating__score'') agg of
               None \<Rightarrow> Inr m
             | Some score_div \<Rightarrow>
                 (let spans = find_all (named ''span'') score_div in
                  if spans \<noteq> []
                  then bindE (py_index spans 0)
                         (\<lambda>s. Inr (m\<lparr>imdb_rating := Some (get_text_strip s @ ''/10'')\<rparr>))
                  else Inr m)"
  have "\<exists>m1. ?score = Inr m1 \<and> rating_count m1 = rating_count m"
    by (auto simp: py_index_def Let_def split: option.splits)
  then obtain m1 where m1: "?score = Inr m1" "rating_count m1 = rating_count m"
    by blast
  have r: "parse_rating soup m =
        (let all_matches = findall_votes (get_text_sep_strip '' '' agg) in
         if all_matches \<noteq> []
         then bindE (py_last all_matches) (\<lambda>v. Inr (m1\<lparr>rating_count := Some v\<rparr>))
         else Inr m1)"
    unfolding parse_rating_def Some option.case m1(1) by simp
  show ?thesis
    using r m1(2) Some by (simp add: py_last_def Let_def)
qed

lemma parse_series_metadata_returns:
  "\<exists>m. parse_series_metadata soup tid = Inr m
      \<and> rating_count m
          = (case find (attr_is ''data-testid'' ''hero-rating-bar__aggregate-rating'') soup of
               None \<Rightarrow> None
             | Some agg \<Rightarrow>
                 if findall_votes (get_text_sep_strip '' '' agg) = [] then None
                 else Some (last (findall_votes (get_text_sep_strip '' '' agg))))"
proof -
  obtain m1 where m1: "parse_series_name soup (new_metadata tid tid) = Inr m1"
    using parse_series_name_returns by blast
  have rc1: "rating_count m1 = None"
    using m1
    by (auto simp: parse_series_name_def new_metadata_def Let_def attr_item_def
          split: option.splits if_splits)
  have rc2: "rating_count (parse_hero_list soup m1) = None"
  proof -
    have c: "rating_count (classify_item item m) = rating_count m" for item m
      by (simp add: classify_item_def)
    have f: "rating_count (foldl (\<lambda>acc item. classify_item item acc) m items) = rating_count m"
      for items m
      by (induction items arbitrary: m) (simp_all add: c)
    show ?thesis
      by (simp add: parse_hero_list_def f rc1 split: option.splits)
  qed
  obtain m2 where m2: "parse_rating soup (parse_hero_list soup m1) = Inr m2"
    and rc: "rating_count m2
          = (case find (attr_is ''data-testid'' ''hero-rating-bar__aggregate-rating'') soup of
               None \<Rightarrow> rating_count (parse_hero_list soup m1)
             | Some agg \<Rightarrow>
                 if findall_votes (get_text_sep_strip '' '' agg) = []
                 then rating_count (parse_hero_list soup m1)
                 else Some (last (findall_votes (get_text_sep_strip '' '' agg))))"
    using parse_rating_returns [of soup "parse_hero_list soup m1"] by blast
  have "rating_count (parse_tags soup (parse_popularity soup m2)) = rating_count m2"
    by (simp add: parse_tags_def parse_popularity_def Let_def split: option.splits)
  with rc rc2 show ?thesis
    by (simp add: parse_series_metadata_def m1 m2 split: option.splits)
qed

text \<open>
  C4. When the aggregate-rating block is present and the pattern \<open>/\s*10\s+([\d.,KkMm]+)\<close>
  has two or more matches in its text, \<open>parse_series_metadata\<close> returns and the
  \<open>rating_count\<close> it returns is the group captured by the last match; so it is not the
  first match's group whenever the two differ.
\<close>

theorem rating_count_is_last_match:
  assumes "find (attr_is ''data-testid'' ''hero-rating-bar__aggregate-rating'') soup = Some agg"
    and "2 \<le> length (findall_votes (get_text_sep_strip '' '' agg))"
  shows "\<exists>m. parse_series_metadata soup tid = Inr m
    \<and> rating_count m = Some (last (findall_votes (get_text_sep_strip '' '' agg)))
    \<and> (hd (findall_votes (get_text_sep_strip '' '' agg))
          \<noteq> last (findall_votes (get_text_sep_strip '' '' agg))
        \<longrightarrow> rating_count m \<noteq> Some (hd (findall_votes (get_text_sep_strip '' '' agg))))"
proof -
  from assms(2) have "findall_votes (get_text_sep_strip '' '' agg) \<noteq> []"
    by auto
  with parse_series_metadata_returns [of soup tid] assms(1) show ?thesis
    by auto
qed

theorem rating_count_is_last_match_witness:
  "\<exists>m. parse_series_metadata
         (Tag ''[document]'' []
            [Tag ''div'' [(''data-testid'', ''hero-rating-bar__aggregate-rating'')]
               [Tag ''a'' [(''href'', ''/title/tt7441658/ratings/'')]
                  [Tag ''div'' [(''data-testid'', ''hero-rating-bar__aggregate-rating__score'')]
                     [Tag ''span'' [] [Text ''8.2''], Tag ''span'' [] [Text ''/10'']]],
                Tag ''div'' [] [Text ''8.2 / 10  47K'']]]) ''tt7441658'' = Inr m
      \<and> rating_count m = Some ''47K''"
proof -
  let ?agg = "Tag ''div'' [(''data-testid'', ''hero-rating-bar__aggregate-rating'')]
               [Tag ''a'' [(''href'', ''/title/tt7441658/ratings/'')]
                  [Tag ''div'' [(''data-testid'', ''hero-rating-bar__aggregate-rating__score'')]
                     [Tag ''span'' [] [Text ''8.2''], Tag ''span'' [] [Text ''/10'']]],
                Tag ''div'' [] [Text ''8.2 / 10  47K'']]"
  have f: "find (attr_is ''data-testid'' ''hero-rating-bar__aggregate-rating'')
             (Tag ''[document]'' [] [?agg]) = Some ?agg"
    by code_simp
  have t: "get_text_sep_strip '' '' ?agg = ''8.2 /10 8.2 / 10  47K''"
    by code_simp
  have v: "findall_votes ''8.2 /10 8.2 / 10  47K'' = [''8.2'', ''47K'']"
    by code_simp
  have "2 \<le> length (findall_votes (get_text_sep_strip '' '' ?agg))"
    unfolding t v by simp
  from rating_count_is_last_match [OF f this, of "''tt7441658''"] show ?thesis
    unfolding t v by auto
qed

section \<open>Episodes: the parser returns, one episode per card\<close>

lemma find_Some: "find f t = Some d \<Longrightarrow> f d"
proof -
  assume "find f t = Some d"
  then obtain ds where "find_all f t = d # ds"
    by (auto simp: find_def split: list.splits)
  then have "d \<in> set (find_all f t)"
    by simp
  then show "f d"
    by (simp add: find_all_def)
qed

lemma attr_item_present: "attr t key \<noteq> None \<Longrightarrow> \<exists>v. attr_item t key = Inr v"
  by (auto simp: attr_item_def)

lemma find_title_text_returns: "\<exists>raw. find_title_text c = Inr raw"
proof (cases "find (attr_is ''data-testid'' ''slate-list-card-title'') c")
  case (Some node)
  then show ?thesis by (simp add: find_title_text_def)
next
  case n1: None
  show ?thesis
  proof (cases "filter (\<lambda>text. re_search se_ci_at text \<and> length text < 200)
                  (map get_text_strip (find_all (named_in [''div'', ''h4'', ''h3'', ''span'']) c))")
    case (Cons t1 rest)
    with n1 show ?thesis by (simp add: find_title_text_def)
  next
    case Nil
    show ?thesis
    proof (cases "find (\<lambda>t. named ''a'' t \<and> has_attr ''aria-label'' t) c")
      case None
      with n1 Nil show ?thesis by (simp add: find_title_text_def)
    next
      case (Some link)
      from find_Some [OF this] have "attr link ''aria-label'' \<noteq> None"
        by (simp add: has_attr_def)
      from attr_item_present [OF this] n1 Nil Some show ?thesis
        by (simp add: find_title_text_def)
    qed
  qed
qed

lemma se_match_groups:
  "se_match s = Some (g1, g2)
     \<Longrightarrow> g1 \<noteq> [] \<and> list_all is_decimal g1 \<and> g2 \<noteq> [] \<and> list_all is_decimal g2"
  by (auto simp: se_match_def list_all_iff split: option.splits if_splits dest: set_takeWhileD)

lemma episode_numbers_cases:
  "(case se_match code0 of
      None \<Rightarrow> Inr (0, 0)
    | Some (g1, g2) \<Rightarrow> bindE (py_int g1) (\<lambda>s. bindE (py_int g2) (\<lambda>e. Inr (s, e))))
   = (if within_limit code0 then Inr (code_numbers code0) else Inl ValueError)"
proof (cases "se_match code0")
  case None
  then show ?thesis by (simp add: within_limit_def code_numbers_def)
next
  case (Some g)
  obtain g1 g2 where g: "g = (g1, g2)" by (cases g)
  from se_match_groups [of code0 g1 g2] Some g
  have "py_int g1 = (if max_str_digits < length g1 then Inl ValueError
                     else Inr (int (digits_value g1)))"
    "py_int g2 = (if max_str_digits < length g2 then Inl ValueError
                  else Inr (int (digits_value g2)))"
    by (simp_all add: py_int_decimals_limit)
  with Some g show ?thesis
    by (simp add: within_limit_def code_numbers_def)
qed

lemma longest_returns: "xs \<noteq> [] \<Longrightarrow> \<exists>x. longest xs = Inr x"
  by (cases xs) (simp_all add: longest_def)

lemma find_description_returns: "\<exists>d. find_description c = Inr d"
  using longest_returns
  by (auto simp: find_description_def Let_def split: option.splits list.splits)

lemma image_candidates_returns: "\<exists>cs. image_candidates entries acc = Inr cs"
proof (induction entries arbitrary: acc)
  case Nil
  then show ?case by simp
next
  case (Cons entry entries)
  show ?case
  proof (cases "\<exists>url descriptor. rsplit1 entry = [url, descriptor]")
    case False
    then have "image_candidates (entry # entries) acc = image_candidates entries acc"
      by (auto split: list.splits)
    with Cons show ?thesis by simp
  next
    case True
    then obtain url descriptor where r: "rsplit1 entry = [url, descriptor]" by blast
    show ?thesis
    proof (cases "py_int (filter is_decimal descriptor)")
      case (Inl e)
      then have "e = ValueError" by (rule py_int_only_ValueError)
      with Inl r Cons show ?thesis by simp
    next
      case (Inr w)
      with r Cons show ?thesis by simp
    qed
  qed
qed

lemma best_image_returns: "\<exists>r. best_image img = Inr r"
proof -
  obtain cs where "image_candidates (split_srcset [] (strip (attr_or_empty img ''srcset''))) [] = Inr cs"
    using image_candidates_returns by blast
  then show ?thesis
    by (cases cs) (simp_all add: best_image_def Let_def py_max_def)
qed

lemma wide_enough_cases:
  "wide_enough img = Inl ValueError \<or> (\<exists>b. wide_enough img = Inr b)"
proof (cases "attr img ''width''")
  case None
  then have "wide_enough img = Inr False" by (simp add: wide_enough_def)
  then show ?thesis by blast
next
  case (Some w)
  show ?thesis
  proof (cases "py_int w")
    case (Inl e)
    then have "e = ValueError" by (rule py_int_only_ValueError)
    with Inl Some show ?thesis by (simp add: wide_enough_def)
  next
    case (Inr n)
    with Some have "wide_enough img = Inr (80 \<le> n)" by (simp add: wide_enough_def)
    then show ?thesis by blast
  qed
qed

lemma cover_by_size_returns: "\<exists>r. cover_by_size imgs = Inr r"
proof (induction imgs)
  case Nil
  then show ?case by simp
next
  case (Cons img imgs)
  let ?by_src = "if attr_or_empty img ''src'' \<noteq> []
                \<and> \<not> endswith (attr_or_empty img ''src'') ''.svg''
                \<and> \<not> contains (lower (attr_or_empty img ''src'')) ''icon''
             then best_image img else cover_by_size imgs"
  have s: "\<exists>r. ?by_src = Inr r"
    using Cons best_image_returns [of img] by auto
  obtain b where b: "best_image img = Inr b"
    using best_image_returns by blast
  from wide_enough_cases [of img] show ?case
  proof
    assume "wide_enough img = Inl ValueError"
    with s show ?thesis by (simp add: Let_def)
  next
    assume "\<exists>x. wide_enough img = Inr x"
    then obtain x where "wide_enough img = Inr x" by blast
    with s b show ?thesis by (cases x) (simp_all add: Let_def)
  qed
qed

lemma cover_by_cdn_returns: "cover_by_cdn imgs = Some r \<Longrightarrow> \<exists>x. r = Inr x"
  using best_image_returns by (induction imgs) (auto split: if_splits)

lemma find_cover_image_returns: "\<exists>r. find_cover_image c = Inr r"
  using cover_by_cdn_returns cover_by_size_returns
  by (auto simp: find_cover_image_def split: option.splits)

lemma first_ep_link_returns:
  "\<forall>a \<in> set as. has_attr ''href'' a \<Longrightarrow> first_ep_link as = Some r \<Longrightarrow> \<exists>x. r = Inr x"
proof (induction as)
  case Nil
  then show ?case by simp
next
  case (Cons a as)
  then have "attr a ''href'' \<noteq> None" by (simp add: has_attr_def)
  then obtain h where "attr_item a ''href'' = Inr h"
    using attr_item_present by blast
  with Cons show ?case by (auto split: if_splits)
qed

lemma find_episode_link_returns: "\<exists>u. find_episode_link c = Inr u"
proof (cases "first_ep_link (find_all (\<lambda>t. named ''a'' t \<and> has_attr ''href'' t) c)")
  case (Some r)
  have "\<forall>a \<in> set (find_all (\<lambda>t. named ''a'' t \<and> has_attr ''href'' t) c). has_attr ''href'' a"
    by (simp add: find_all_def)
  from first_ep_link_returns [OF this Some] Some show ?thesis
    by (auto simp: find_episode_link_def)
next
  case None
  show ?thesis
  proof (cases "find (\<lambda>t. named ''a'' t \<and> attr_matches ''href'' (re_search title_link_at) t) c")
    case n: None
    with None show ?thesis by (simp add: find_episode_link_def)
  next
    case (Some a)
    from find_Some [OF this] have "attr a ''href'' \<noteq> None"
      by (auto simp: attr_matches_def split: option.splits)
    then obtain h where "attr_item a ''href'' = Inr h"
      using attr_item_present by blast
    with None Some show ?thesis by (simp add: find_episode_link_def)
  qed
qed

lemma split_bullet_nonempty: "split_bullet cur s \<noteq> []"
  by (induction s arbitrary: cur) (auto split: list.splits)

text \<open>
  One card: \<open>int\<close> on the two numbers of the code is the only step of the loop body that
  can raise, and it does when a number has more than 4300 digits.
\<close>

lemma card_code_eq:
  "find_title_text c = Inr raw
     \<Longrightarrow> (if split_bullet [] raw \<noteq> []
          then bindE (py_index (split_bullet [] raw) 0) (\<lambda>p. Inr (strip p)) else Inr [])
         = Inr (card_code c)"
  by (cases "split_bullet [] raw") (simp_all add: card_code_def py_index_def)

lemma parse_card_cases:
  "(within_limit (card_code c) \<longrightarrow>
      (\<exists>ep. parse_card c = Inr ep
         \<and> episode_code ep = card_code c
         \<and> (season ep, episode ep) = code_numbers (episode_code ep)
         \<and> cover_image_local ep = None
         \<and> air_date ep = find_air_date c \<and> rating ep = find_rating c))
   \<and> (\<not> within_limit (card_code c) \<longrightarrow> parse_card c = Inl ValueError)"
proof -
  obtain raw where raw: "find_title_text c = Inr raw"
    using find_title_text_returns by blast
  let ?parts = "split_bullet [] raw"
  note code0 = card_code_eq [OF raw]
  have "\<exists>ep_title.
    (if 1 < length ?parts then bindE (py_index ?parts 1) (\<lambda>p. Inr (strip p)) else Inr raw)
       = Inr ep_title"
    by (simp add: py_index_def)
  then obtain ep_title where ep_title:
    "(if 1 < length ?parts then bindE (py_index ?parts 1) (\<lambda>p. Inr (strip p)) else Inr raw)
       = Inr ep_title"
    by blast
  obtain d where d: "find_description c = Inr d"
    using find_description_returns by blast
  obtain cv where cv: "find_cover_image c = Inr cv"
    using find_cover_image_returns by blast
  obtain u where u: "find_episode_link c = Inr u"
    using find_episode_link_returns by blast
  show ?thesis
    unfolding parse_card_def raw bindE.simps Let_def code0 ep_title episode_numbers_cases d cv u
    by (simp split: prod.splits)
qed

lemma parse_card_returns:
  "within_limit (card_code c) \<Longrightarrow> \<exists>ep. parse_card c = Inr ep"
  using parse_card_cases [of c] by blast

lemma parse_card_raises:
  "\<not> within_limit (card_code c) \<Longrightarrow> parse_card c = Inl ValueError"
  using parse_card_cases [of c] by blast

lemma parse_card_result:
  assumes "parse_card c = Inr ep"
  shows "within_limit (card_code c) \<and> episode_code ep = card_code c
         \<and> (season ep, episode ep) = code_numbers (episode_code ep)
         \<and> cover_image_local ep = None"
proof (cases "within_limit (card_code c)")
  case True
  with parse_card_cases [of c] assms show ?thesis by auto
next
  case False
  with parse_card_raises [of c] assms show ?thesis by simp
qed

lemma parse_cards_Cons:
  "parse_cards (c # cs) = Inr eps
     \<longleftrightarrow> (\<exists>ep eps'. parse_card c = Inr ep \<and> parse_cards cs = Inr eps' \<and> eps = ep # eps')"
  by (cases "parse_card c"; cases "parse_cards cs") auto

lemma parse_cards_list_all2:
  "parse_cards cs = Inr eps \<Longrightarrow> list_all2 (\<lambda>c ep. parse_card c = Inr ep) cs eps"
proof (induction cs arbitrary: eps)
  case Nil
  then show ?case by simp
next
  case (Cons c cs)
  then obtain ep eps' where "parse_card c = Inr ep" "parse_cards cs = Inr eps'" "eps = ep # eps'"
    by (auto simp only: parse_cards_Cons)
  with Cons.IH [of eps'] show ?case by simp
qed

lemma parse_cards_returns:
  "(\<forall>c \<in> set cs. within_limit (card_code c)) \<Longrightarrow> \<exists>eps. parse_cards cs = Inr eps"
proof (induction cs)
  case Nil
  then show ?case by simp
next
  case (Cons c cs)
  then obtain ep eps where "parse_card c = Inr ep" "parse_cards cs = Inr eps"
    using parse_card_returns [of c] by auto
  then show ?case by simp
qed

lemma parse_cards_raises:
  "\<exists>c \<in> set cs. \<not> within_limit (card_code c) \<Longrightarrow> parse_cards cs = Inl ValueError"
proof (induction cs)
  case Nil
  then show ?case by simp
next
  case (Cons c cs)
  show ?case
  proof (cases "within_limit (card_code c)")
    case False
    then show ?thesis
      by (simp add: parse_card_raises)
  next
    case True
    with Cons have "parse_cards cs = Inl ValueError"
      by auto
    moreover obtain ep where "parse_card c = Inr ep"
      using parse_card_returns [OF True] by blast
    ultimately show ?thesis by simp
  qed
qed

lemma parse_cards_numbers:
  "parse_cards cs = Inr eps
     \<Longrightarrow> \<forall>ep \<in> set eps. (season ep, episode ep) = code_numbers (episode_code ep)"
proof -
  assume "parse_cards cs = Inr eps"
  then have "list_all2 (\<lambda>c ep. parse_card c = Inr ep) cs eps"
    by (rule parse_cards_list_all2)
  then show ?thesis
    by (induction rule: list_all2_induct) (auto dest: parse_card_result)
qed

text \<open>
  C3 as stated fails: the parser makes one episode per card and removes nothing. Two cards
  that carry the same code give two episodes with the same (season, episode) pair.
\<close>

theorem parse_episodes_duplicate_pair_counterexample:
  "\<exists>eps. parse_episodes
            (Tag ''[document]'' []
               [Tag ''article'' [] [Tag ''h4'' [] [Text ''S1.E1'']],
                Tag ''article'' [] [Tag ''h4'' [] [Text ''S1.E1'']]]) = Inr eps
         \<and> \<not> distinct (map (\<lambda>ep. (season ep, episode ep)) eps)"
proof -
  let ?e = "\<lparr>episode_code = ''S1.E1'', title = ''S1.E1'', season = 1, episode = 1,
             air_date = [], description = [], rating = ''N/A'', cover_image = None,
             cover_image_local = None, imdb_url = []\<rparr>"
  have "parse_episodes
            (Tag ''[document]'' []
               [Tag ''article'' [] [Tag ''h4'' [] [Text ''S1.E1'']],
                Tag ''article'' [] [Tag ''h4'' [] [Text ''S1.E1'']]]) = Inr [?e, ?e]"
    by code_simp
  then show ?thesis by simp
qed

text \<open>
  C3, amended. Whenever \<open>parse_episodes\<close> returns a list for a document, and it does
  when the two numbers of every card's episode code have at most 4300 digits, the list
  holds one episode per card that \<open>_find_episode_cards\<close> finds, in the order of the
  cards, and the (season, episode) pair of each episode is the pair its own episode code
  stands for (\<open>(0, 0)\<close> when the code has no \<open>S#.E#\<close> form). Nothing removes duplicates:
  the pairs of one result are distinct exactly when the pairs that the codes stand for
  are.
\<close>

theorem parse_episodes_one_per_card:
  "((\<forall>c \<in> set (find_episode_cards soup). within_limit (card_code c))
      \<longrightarrow> (\<exists>eps. parse_episodes soup = Inr eps))
   \<and> (parse_episodes soup = Inr eps
      \<longrightarrow> list_all2 (\<lambda>c ep. parse_card c = Inr ep) (find_episode_cards soup) eps
        \<and> (\<forall>ep \<in> set eps. (season ep, episode ep) = code_numbers (episode_code ep))
        \<and> (distinct (map (\<lambda>ep. (season ep, episode ep)) eps)
             \<longleftrightarrow> distinct (map (\<lambda>ep. code_numbers (episode_code ep)) eps)))"
proof (intro conjI impI)
  assume "\<forall>c \<in> set (find_episode_cards soup). within_limit (card_code c)"
  then show "\<exists>eps. parse_episodes soup = Inr eps"
    unfolding parse_episodes_def by (rule parse_cards_returns)
next
  assume "parse_episodes soup = Inr eps"
  then have p: "parse_cards (find_episode_cards soup) = Inr eps"
    by (simp add: parse_episodes_def)
  from p show "list_all2 (\<lambda>c ep. parse_card c = Inr ep) (find_episode_cards soup) eps"
    by (rule parse_cards_list_all2)
  from p show n: "\<forall>ep \<in> set eps. (season ep, episode ep) = code_numbers (episode_code ep)"
    by (rule parse_cards_numbers)
  then have "map (\<lambda>ep. (season ep, episode ep)) eps
             = map (\<lambda>ep. code_numbers (episode_code ep)) eps"
    by simp
  then show "distinct (map (\<lambda>ep. (season ep, episode ep)) eps)
          \<longleftrightarrow> distinct (map (\<lambda>ep. code_numbers (episode_code ep)) eps)"
    by (simp only:)
qed

theorem parse_episodes_one_per_card_witness:
  "\<exists>eps. parse_episodes
            (Tag ''[document]'' []
               [Tag ''article'' [] [Tag ''h4'' [] [Text ''S1.E1'']],
                Tag ''article'' [] [Tag ''h4'' [] [Text ''S1.E2'']]]) = Inr eps
         \<and> length eps = 2
         \<and> map (\<lambda>ep. (season ep, episode ep)) eps = [(1, 1), (1, 2)]"
proof -
  let ?doc = "Tag ''[document]'' []
               [Tag ''article'' [] [Tag ''h4'' [] [Text ''S1.E1'']],
                Tag ''article'' [] [Tag ''h4'' [] [Text ''S1.E2'']]]"
  let ?e1 = "\<lparr>episode_code = ''S1.E1'', title = ''S1.E1'', season = 1, episode = 1,
             air_date = [], description = [], rating = ''N/A'', cover_image = None,
             cover_image_local = None, imdb_url = []\<rparr>"
  let ?e2 = "\<lparr>episode_code = ''S1.E2'', title = ''S1.E2'', season = 1, episode = 2,
             air_date = [], description = [], rating = ''N/A'', cover_image = None,
             cover_image_local = None, imdb_url = []\<rparr>"
  have p: "parse_episodes ?doc = Inr [?e1, ?e2]"
    by code_simp
  have c: "\<forall>c \<in> set (find_episode_cards ?doc). within_limit (card_code c)"
    by code_simp
  from parse_episodes_one_per_card [of ?doc "[?e1, ?e2]"] p c
  have "list_all2 (\<lambda>c ep. parse_card c = Inr ep) (find_episode_cards ?doc) [?e1, ?e2]"
    by blast
  with p show ?thesis
    by simp
qed

section \<open>Episodes: when the parser raises\<close>

text \<open>
  \<open>parse_series_metadata\<close> returns for every document (lemma
  \<open>parse_series_metadata_returns\<close>). \<open>parse_episodes\<close> returns exactly when the two
  numbers of every card's episode code have at most 4300 digits; otherwise the
  unguarded \<open>int(m.group(1))\<close> or \<open>int(m.group(2))\<close> raises \<open>ValueError\<close>. A document
  without cards gives the empty list.
\<close>

lemma parse_episodes_returns_iff:
  "(\<exists>eps. parse_episodes soup = Inr eps)
     \<longleftrightarrow> (\<forall>c \<in> set (find_episode_cards soup). within_limit (card_code c))"
proof
  assume "\<exists>eps. parse_episodes soup = Inr eps"
  show "\<forall>c \<in> set (find_episode_cards soup). within_limit (card_code c)"
  proof (rule ccontr)
    assume "\<not> (\<forall>c \<in> set (find_episode_cards soup). within_limit (card_code c))"
    then have "\<exists>c \<in> set (find_episode_cards soup). \<not> within_limit (card_code c)"
      by blast
    then have "parse_cards (find_episode_cards soup) = Inl ValueError"
      by (rule parse_cards_raises)
    with \<open>\<exists>eps. parse_episodes soup = Inr eps\<close> show False
      by (simp add: parse_episodes_def)
  qed
next
  assume "\<forall>c \<in> set (find_episode_cards soup). within_limit (card_code c)"
  then show "\<exists>eps. parse_episodes soup = Inr eps"
    unfolding parse_episodes_def by (rule parse_cards_returns)
qed

lemma parse_episodes_only_ValueError: "parse_episodes soup = Inl e \<Longrightarrow> e = ValueError"
proof -
  assume e: "parse_episodes soup = Inl e"
  then have "\<not> (\<exists>eps. parse_episodes soup = Inr eps)"
    by simp
  then have "\<exists>c \<in> set (find_episode_cards soup). \<not> within_limit (card_code c)"
    by (simp add: parse_episodes_returns_iff)
  then have "parse_cards (find_episode_cards soup) = Inl ValueError"
    by (rule parse_cards_raises)
  with e show ?thesis
    by (simp add: parse_episodes_def)
qed

lemma parse_episodes_no_cards: "find_episode_cards soup = [] \<Longrightarrow> parse_episodes soup = Inr []"
  by (simp add: parse_episodes_def)

lemma parse_series_metadata_empty:
  "parse_series_metadata (Tag ''[document]'' [] []) tid = Inr (new_metadata tid tid)"
proof -
  have e: "descendants (Tag ''[document]'' [] []) = []"
    by (simp add: descendants_def)
  show ?thesis
    by (simp add: parse_series_metadata_def parse_series_name_def parse_hero_list_def
        parse_rating_def parse_popularity_def parse_tags_def find_def find_all_def find_parent_def
        e Let_def)
qed

lemma parse_episodes_defaults:
  "parse_episodes (Tag ''[document]'' [] [Tag ''article'' [] [Text ''S1.E1'']])
       = Inr [\<lparr>episode_code = [], title = [], season = 0, episode = 0, air_date = [],
               description = [], rating = ''N/A'', cover_image = None,
               cover_image_local = None, imdb_url = []\<rparr>]"
  by code_simp

text \<open>A card whose title is \<open>S\<close>, then \<open>n\<close> digits \<open>1\<close>, then \<open>.E1\<close>.\<close>

lemma takeWhile_replicate_append:
  "P c \<Longrightarrow> takeWhile P (replicate n c @ r) = replicate n c @ takeWhile P r"
  by (induction n) simp_all

lemma dropWhile_replicate_append:
  "P c \<Longrightarrow> dropWhile P (replicate n c @ r) = dropWhile P r"
  by (induction n) simp_all

lemma split_bullet_none: "\<forall>c \<in> set s. \<not> is_bullet c \<Longrightarrow> split_bullet cur s = [cur @ s]"
proof (induction s arbitrary: cur)
  case Nil
  then show ?case by simp
next
  case (Cons c cs)
  have "\<And>b r. dropWhile is_space (c # cs) = b # r \<Longrightarrow> \<not> is_bullet b"
  proof -
    fix b r
    assume "dropWhile is_space (c # cs) = b # r"
    then have "b \<in> set (dropWhile is_space (c # cs))"
      by simp
    then have "b \<in> set (c # cs)"
      by (rule set_dropWhileD)
    with Cons.prems show "\<not> is_bullet b"
      by blast
  qed
  moreover from Cons have "split_bullet (cur @ [c]) cs = [cur @ c # cs]"
    by simp
  ultimately show ?case
    by (simp split: list.splits)
qed

lemma one_decimal: "is_decimal CHR ''1''"
  by (simp add: is_decimal_def code_def)

lemma is_space_S: "\<not> is_space CHR ''S''"
  by (simp add: is_space_def code_def)

lemma is_space_1: "\<not> is_space CHR ''1''"
  by (simp add: is_space_def code_def)

lemma se_match_long:
  "0 < n \<Longrightarrow> se_match (''S'' @ replicate n CHR ''1'' @ ''.E1'') = Some (replicate n CHR ''1'', ''1'')"
proof -
  assume n: "0 < n"
  have d: "\<not> is_decimal CHR ''.''"
    by (simp add: is_decimal_def code_def)
  have l: "lower ''S'' = ''s''" "lower ''E'' = ''e''"
    by code_simp+
  have t: "takeWhile is_decimal (replicate n CHR ''1'' @ ''.E1'') = replicate n CHR ''1''"
    by (simp add: takeWhile_replicate_append one_decimal d)
  have dr: "dropWhile is_decimal (replicate n CHR ''1'' @ ''.E1'') = ''.E1''"
    by (simp add: dropWhile_replicate_append one_decimal d)
  from n show ?thesis
    by (simp add: se_match_def lit_ci_def lit_def l t dr one_decimal)
qed

lemma se_ci_at_long:
  "0 < n \<Longrightarrow> se_ci_at (''S'' @ replicate n CHR ''1'' @ ''.E1'')"
proof -
  assume n: "0 < n"
  have d: "\<not> is_decimal CHR ''.''"
    by (simp add: is_decimal_def code_def)
  have l: "lower ''S'' = ''s''" "lower ''E'' = ''e''"
    by code_simp+
  have t: "takeWhile is_decimal (replicate n CHR ''1'' @ ''.E1'') = replicate n CHR ''1''"
    by (simp add: takeWhile_replicate_append one_decimal d)
  have dr: "dropWhile is_decimal (replicate n CHR ''1'' @ ''.E1'') = ''.E1''"
    by (simp add: dropWhile_replicate_append one_decimal d)
  from n show ?thesis
    by (simp add: se_ci_at_def lit_ci_def lit_def many1_def l t dr one_decimal)
qed

lemma long_card:
  assumes s: "re_search se_ci_at t" and st: "strip t = t" and ne: "t \<noteq> []"
  shows "find_episode_cards (Tag ''[document]'' []
           [Tag ''article'' [] [Tag ''div'' [(''data-testid'', ''slate-list-card-title'')] [Text t]]])
         = [Tag ''article'' [] [Tag ''div'' [(''data-testid'', ''slate-list-card-title'')] [Text t]]]"
    and "find_title_text (Tag ''article'' [] [Tag ''div'' [(''data-testid'', ''slate-list-card-title'')] [Text t]]) = Inr t"
proof -
  have e: "\<not> contains (lower ''slate-list-card-title'') ''episode''"
    by code_simp
  show "find_episode_cards (Tag ''[document]'' []
           [Tag ''article'' [] [Tag ''div'' [(''data-testid'', ''slate-list-card-title'')] [Text t]]])
         = [Tag ''article'' [] [Tag ''div'' [(''data-testid'', ''slate-list-card-title'')] [Text t]]]"
    using s e
    by (simp add: find_episode_cards_def find_def find_all_def descendants_def
        named_def attr_matches_def get_text_def strings_def string_container_def Let_def)
  show "find_title_text (Tag ''article'' [] [Tag ''div'' [(''data-testid'', ''slate-list-card-title'')] [Text t]]) = Inr t"
    using st ne
    by (simp add: find_title_text_def find_def find_all_def descendants_def
        attr_is_def get_text_strip_def stripped_strings_def strings_def string_container_def)
qed

lemma long_code_raises:
  assumes "max_str_digits < n"
  shows "parse_episodes
     (Tag ''[document]'' []
        [Tag ''article'' []
           [Tag ''div'' [(''data-testid'', ''slate-list-card-title'')]
              [Text (''S'' @ replicate n CHR ''1'' @ ''.E1'')]]])
   = Inl ValueError"
proof -
  let ?t = "''S'' @ replicate n CHR ''1'' @ ''.E1''"
  let ?card = "Tag ''article'' []
           [Tag ''div'' [(''data-testid'', ''slate-list-card-title'')] [Text ?t]]"
  from assms have n: "0 < n"
    by simp
  then have m: "se_match ?t = Some (replicate n CHR ''1'', ''1'')"
    by (rule se_match_long)
  from n have "se_ci_at ?t"
    by (rule se_ci_at_long)
  then have s: "re_search se_ci_at ?t"
    by simp
  have ne: "?t \<noteq> []"
    by simp
  have "\<not> is_space (hd ?t)" "\<not> is_space (last ?t)"
    by (simp_all add: is_space_S is_space_1)
  with ne have st: "strip ?t = ?t"
    by (rule strip_id)
  have b: "\<forall>c \<in> set ?t. \<not> is_bullet c"
    by (auto simp: is_bullet_def code_def)
  have ft: "find_title_text ?card = Inr ?t"
    using s st ne by (rule long_card(2))
  have sb: "split_bullet [] ?t = [?t]"
    using split_bullet_none [OF b, of "[]"] by simp
  have "card_code ?card = ?t"
    by (simp only: card_code_def ft sb sum.case list.case st)
  with assms m have "\<not> within_limit (card_code ?card)"
    by (simp add: within_limit_def)
  then have "\<exists>c \<in> set [?card]. \<not> within_limit (card_code c)"
    by simp
  then have "parse_cards [?card] = Inl ValueError"
    by (rule parse_cards_raises)
  then show ?thesis
    unfolding parse_episodes_def long_card(1) [OF s st ne] .
qed

text \<open>
  C9 fails on the code. \<open>parse_episodes\<close> raises \<open>ValueError\<close> on a document with one
  card whose title is \<open>S\<close>, 4301 digits and \<open>.E1\<close>: \<open>int(m.group(1))\<close> is not guarded,
  while the two other calls of \<open>int\<close> in the module (in \<open>_best_image\<close> and
  \<open>_find_cover_image\<close>) stand in a \<open>try\<close> that catches \<open>ValueError\<close>.
\<close>

theorem parse_episodes_long_code_raises:
  "parse_episodes
     (Tag ''[document]'' []
        [Tag ''article'' []
           [Tag ''div'' [(''data-testid'', ''slate-list-card-title'')]
              [Text (''S'' @ replicate 4301 CHR ''1'' @ ''.E1'')]]])
   = Inl ValueError"
  by (rule long_code_raises) (simp add: max_str_digits_def)

end
